theory Spec2Isabelle
  imports Complex_Main
begin

section \<open>Chronos: the Spectral Weaver parametric equaliser\<close>

text \<open>
  A shallow embedding of \<^verbatim>\<open>Biquad.hpp\<close>, \<^verbatim>\<open>FilterDesign.hpp\<close> and
  \<^verbatim>\<open>SpectralWeaver.hpp\<close>.

  Conventions of the embedding:
  \<^item> a C++ \<^verbatim>\<open>double\<close> is a HOL \<open>real\<close>: arithmetic is exact, there is no
    rounding, no NaN and no infinity;
  \<^item> a C++ \<^verbatim>\<open>int\<close> is a HOL \<open>int\<close> (no loop below can overflow its counter);
  \<^item> a member function that mutates its object takes the object and returns the
    updated object, together with the returned value when there is one;
  \<^item> sample buffers live in a store, a map from addresses to samples, and a
    \<^verbatim>\<open>double*\<close> is an address, so that two buffer arguments may alias;
  \<^item> a \<^verbatim>\<open>std::array<T, 7>\<close> is a list, and an engine is well formed when both of
    its arrays have seven elements;
  \<^item> a counted \<^verbatim>\<open>for\<close> loop is a recursive function of its counter.
\<close>

subsection \<open>Biquad.hpp\<close>

type_synonym double = real

record Biquad =
  m_b0 :: double
  m_b1 :: double
  m_b2 :: double
  m_a1 :: double
  m_a2 :: double
  m_z1 :: double
  m_z2 :: double

definition setCoefficients ::
  "double \<Rightarrow> double \<Rightarrow> double \<Rightarrow> double \<Rightarrow> double \<Rightarrow> Biquad \<Rightarrow> Biquad" where
  "setCoefficients b0 b1 b2 a1 a2 bq =
     bq\<lparr>m_b0 := b0, m_b1 := b1, m_b2 := b2, m_a1 := a1, m_a2 := a2\<rparr>"

definition Biquad_reset :: "Biquad \<Rightarrow> Biquad" where
  "Biquad_reset bq = bq\<lparr>m_z1 := 0, m_z2 := 0\<rparr>"

text \<open>
  The constructor runs \<^verbatim>\<open>reset()\<close> and then \<^verbatim>\<open>setCoefficients(1, 0, 0, 0, 0)\<close>;
  between them the two calls assign every member, so the constructed object is
  this record whatever the storage held before.
\<close>

definition Biquad_ctor :: Biquad where
  "Biquad_ctor =
     \<lparr>m_b0 = 1, m_b1 = 0, m_b2 = 0, m_a1 = 0, m_a2 = 0, m_z1 = 0, m_z2 = 0\<rparr>"

text \<open>
  \<^verbatim>\<open>process\<close> assigns \<^verbatim>\<open>m_z1\<close> before it computes \<^verbatim>\<open>m_z2\<close>; the model keeps the
  order of the three statements and reads every member from the object as it is
  at that statement.
\<close>

definition Biquad_process :: "double \<Rightarrow> Biquad \<Rightarrow> double \<times> Biquad" where
  "Biquad_process input bq =
     (let output = m_b0 bq * input + m_z1 bq;
          bq = bq\<lparr>m_z1 := m_b1 bq * input - m_a1 bq * output + m_z2 bq\<rparr>;
          bq = bq\<lparr>m_z2 := m_b2 bq * input - m_a2 bq * output\<rparr>
      in (output, bq))"

type_synonym addr = int
type_synonym memory = "addr \<Rightarrow> double"

text \<open>
  \<^verbatim>\<open>for (int i = 0; i < numSamples; ++i) output[i] = process(input[i]);\<close>
  with \<open>input\<close> and \<open>output\<close> the addresses of the two buffers.
\<close>

function Biquad_processBlock_loop ::
  "int \<Rightarrow> addr \<Rightarrow> addr \<Rightarrow> int \<Rightarrow> Biquad \<times> memory \<Rightarrow> Biquad \<times> memory" where
  "Biquad_processBlock_loop i input output numSamples (bq, mem) =
     (if i < numSamples then
        (let (y, bq') = Biquad_process (mem (input + i)) bq
         in Biquad_processBlock_loop (i + 1) input output numSamples
              (bq', mem(output + i := y)))
      else (bq, mem))"
  by pat_completeness auto
termination
  by (relation "measure (\<lambda>(i, input, output, numSamples, s). nat (numSamples - i))") auto

declare Biquad_processBlock_loop.simps [simp del]

definition Biquad_processBlock ::
  "addr \<Rightarrow> addr \<Rightarrow> int \<Rightarrow> Biquad \<times> memory \<Rightarrow> Biquad \<times> memory" where
  "Biquad_processBlock input output numSamples s =
     Biquad_processBlock_loop 0 input output numSamples s"


subsection \<open>FilterDesign.hpp\<close>

datatype FilterType = Bell | LowShelf | HighShelf | LowPass | HighPass | AllPass | Notch

definition PI :: double where
  "PI = 3.14159265358979323846"

definition MIN_Q :: double where
  "MIN_Q = 0.1"

definition MAX_Q :: double where
  "MAX_Q = 18.0"

text \<open>
  \<^verbatim>\<open>std::clamp(v, lo, hi)\<close> returns \<open>lo\<close> if \<open>v < lo\<close>, \<open>hi\<close> if \<open>hi < v\<close>, and \<open>v\<close>
  otherwise. The C++ standard defines the call only for \<open>lo \<le> hi\<close>.
\<close>

definition std_clamp :: "double \<Rightarrow> double \<Rightarrow> double \<Rightarrow> double" where
  "std_clamp v lo hi = (if v < lo then lo else if hi < v then hi else v)"

text \<open>
  Each design function takes the filter it configures and returns it with the
  new coefficients. Its parameters \<^verbatim>\<open>Q\<close> and \<^verbatim>\<open>frequency\<close> are reassigned by
  the two clamps; the model calls the values after the clamps \<open>Q'\<close> and
  \<open>frequency'\<close>. \<^verbatim>\<open>std::pow(10.0, e)\<close> is \<open>10 powr e\<close>.
\<close>

definition designBell ::
  "Biquad \<Rightarrow> double \<Rightarrow> double \<Rightarrow> double \<Rightarrow> double \<Rightarrow> Biquad" where
  "designBell biquad sampleRate frequency Q gainDB =
     (let Q' = std_clamp Q MIN_Q MAX_Q;
          frequency' = std_clamp frequency 1.0 (sampleRate * 0.49);
          A = 10.0 powr (gainDB / 40.0);
          omega = 2.0 * PI * frequency' / sampleRate;
          sn = sin omega;
          cs = cos omega;
          alpha = sn / (2.0 * Q');
          b0 = 1.0 + alpha * A;
          b1 = - 2.0 * cs;
          b2 = 1.0 - alpha * A;
          a0 = 1.0 + alpha / A;
          a1 = - 2.0 * cs;
          a2 = 1.0 - alpha / A
      in setCoefficients (b0 / a0) (b1 / a0) (b2 / a0) (a1 / a0) (a2 / a0) biquad)"

definition designLowShelf ::
  "Biquad \<Rightarrow> double \<Rightarrow> double \<Rightarrow> double \<Rightarrow> double \<Rightarrow> Biquad" where
  "designLowShelf biquad sampleRate frequency Q gainDB =
     (let Q' = std_clamp Q MIN_Q MAX_Q;
          frequency' = std_clamp frequency 1.0 (sampleRate * 0.49);
          A = 10.0 powr (gainDB / 40.0);
          omega = 2.0 * PI * frequency' / sampleRate;
          sn = sin omega;
          cs = cos omega;
          beta = sqrt A / Q';
          b0 = A * ((A + 1.0) - (A - 1.0) * cs + beta * sn);
          b1 = 2.0 * A * ((A - 1.0) - (A + 1.0) * cs);
          b2 = A * ((A + 1.0) - (A - 1.0) * cs - beta * sn);
          a0 = (A + 1.0) + (A - 1.0) * cs + beta * sn;
          a1 = - 2.0 * ((A - 1.0) + (A + 1.0) * cs);
          a2 = (A + 1.0) + (A - 1.0) * cs - beta * sn
      in setCoefficients (b0 / a0) (b1 / a0) (b2 / a0) (a1 / a0) (a2 / a0) biquad)"

definition designHighShelf ::
  "Biquad \<Rightarrow> double \<Rightarrow> double \<Rightarrow> double \<Rightarrow> double \<Rightarrow> Biquad" where
  "designHighShelf biquad sampleRate frequency Q gainDB =
     (let Q' = std_clamp Q MIN_Q MAX_Q;
          frequency' = std_clamp frequency 1.0 (sampleRate * 0.49);
          A = 10.0 powr (gainDB / 40.0);
          omega = 2.0 * PI * frequency' / sampleRate;
          sn = sin omega;
          cs = cos omega;
          beta = sqrt A / Q';
          b0 = A * ((A + 1.0) + (A - 1.0) * cs + beta * sn);
          b1 = - 2.0 * A * ((A - 1.0) + (A + 1.0) * cs);
          b2 = A * ((A + 1.0) + (A - 1.0) * cs - beta * sn);
          a0 = (A + 1.0) - (A - 1.0) * cs + beta * sn;
          a1 = 2.0 * ((A - 1.0) - (A + 1.0) * cs);
          a2 = (A + 1.0) - (A - 1.0) * cs - beta * sn
      in setCoefficients (b0 / a0) (b1 / a0) (b2 / a0) (a1 / a0) (a2 / a0) biquad)"

definition designHighPass :: "Biquad \<Rightarrow> double \<Rightarrow> double \<Rightarrow> double \<Rightarrow> Biquad" where
  "designHighPass biquad sampleRate frequency Q =
     (let Q' = std_clamp Q MIN_Q MAX_Q;
          frequency' = std_clamp frequency 1.0 (sampleRate * 0.49);
          omega = 2.0 * PI * frequency' / sampleRate;
          sn = sin omega;
          cs = cos omega;
          alpha = sn / (2.0 * Q');
          b0 = (1.0 + cs) / 2.0;
          b1 = - (1.0 + cs);
          b2 = (1.0 + cs) / 2.0;
          a0 = 1.0 + alpha;
          a1 = - 2.0 * cs;
          a2 = 1.0 - alpha
      in setCoefficients (b0 / a0) (b1 / a0) (b2 / a0) (a1 / a0) (a2 / a0) biquad)"

definition designLowPass :: "Biquad \<Rightarrow> double \<Rightarrow> double \<Rightarrow> double \<Rightarrow> Biquad" where
  "designLowPass biquad sampleRate frequency Q =
     (let Q' = std_clamp Q MIN_Q MAX_Q;
          frequency' = std_clamp frequency 1.0 (sampleRate * 0.49);
          omega = 2.0 * PI * frequency' / sampleRate;
          sn = sin omega;
          cs = cos omega;
          alpha = sn / (2.0 * Q');
          b0 = (1.0 - cs) / 2.0;
          b1 = 1.0 - cs;
          b2 = (1.0 - cs) / 2.0;
          a0 = 1.0 + alpha;
          a1 = - 2.0 * cs;
          a2 = 1.0 - alpha
      in setCoefficients (b0 / a0) (b1 / a0) (b2 / a0) (a1 / a0) (a2 / a0) biquad)"

definition designAllPass :: "Biquad \<Rightarrow> double \<Rightarrow> double \<Rightarrow> double \<Rightarrow> Biquad" where
  "designAllPass biquad sampleRate frequency Q =
     (let Q' = std_clamp Q MIN_Q MAX_Q;
          frequency' = std_clamp frequency 1.0 (sampleRate * 0.49);
          omega = 2.0 * PI * frequency' / sampleRate;
          sn = sin omega;
          cs = cos omega;
          alpha = sn / (2.0 * Q');
          b0 = 1.0 - alpha;
          b1 = - 2.0 * cs;
          b2 = 1.0 + alpha;
          a0 = 1.0 + alpha;
          a1 = - 2.0 * cs;
          a2 = 1.0 - alpha
      in setCoefficients (b0 / a0) (b1 / a0) (b2 / a0) (a1 / a0) (a2 / a0) biquad)"

definition designNotch :: "Biquad \<Rightarrow> double \<Rightarrow> double \<Rightarrow> double \<Rightarrow> Biquad" where
  "designNotch biquad sampleRate frequency Q =
     (let Q' = std_clamp Q MIN_Q MAX_Q;
          frequency' = std_clamp frequency 1.0 (sampleRate * 0.49);
          omega = 2.0 * PI * frequency' / sampleRate;
          sn = sin omega;
          cs = cos omega;
          alpha = sn / (2.0 * Q');
          b0 = 1.0;
          b1 = - 2.0 * cs;
          b2 = 1.0;
          a0 = 1.0 + alpha;
          a1 = - 2.0 * cs;
          a2 = 1.0 - alpha
      in setCoefficients (b0 / a0) (b1 / a0) (b2 / a0) (a1 / a0) (a2 / a0) biquad)"

subsection \<open>SpectralWeaver.hpp\<close>

text \<open>
  The members of \<^verbatim>\<open>EQBand\<close> carry the prefix \<open>band_\<close>: the setters and the design
  functions have parameters of the same names as the members.
\<close>

record EQBand =
  band_type :: FilterType
  band_frequency :: double
  band_Q :: double
  band_gainDB :: double
  band_enabled :: bool

definition EQBand_ctor :: EQBand where
  "EQBand_ctor =
     \<lparr>band_type = Bell, band_frequency = 1000.0, band_Q = 0.707, band_gainDB = 0.0,
      band_enabled = False\<rparr>"

record SpectralWeaver =
  m_bands :: "EQBand list"
  m_filters :: "Biquad list"
  m_sampleRate :: double
  m_bypass :: bool

definition NUM_BANDS :: int where
  "NUM_BANDS = 7"

text \<open>The two \<^verbatim>\<open>std::array\<close> members have \<^verbatim>\<open>NUM_BANDS\<close> elements each.\<close>

definition well_formed :: "SpectralWeaver \<Rightarrow> bool" where
  "well_formed sw \<longleftrightarrow>
     int (length (m_bands sw)) = NUM_BANDS \<and> int (length (m_filters sw)) = NUM_BANDS"

text \<open>An assignment to a member of \<^verbatim>\<open>m_bands[bandIndex]\<close>.\<close>

definition assignBand :: "int \<Rightarrow> (EQBand \<Rightarrow> EQBand) \<Rightarrow> SpectralWeaver \<Rightarrow> SpectralWeaver" where
  "assignBand bandIndex upd sw =
     sw\<lparr>m_bands := (m_bands sw)[nat bandIndex := upd (m_bands sw ! nat bandIndex)]\<rparr>"

definition updateFilter :: "int \<Rightarrow> SpectralWeaver \<Rightarrow> SpectralWeaver" where
  "updateFilter bandIndex sw =
     (if bandIndex < 0 \<or> bandIndex \<ge> NUM_BANDS then sw
      else
        let band = m_bands sw ! nat bandIndex;
            flt = m_filters sw ! nat bandIndex;
            flt' = (case band_type band of
                Bell \<Rightarrow> designBell flt (m_sampleRate sw) (band_frequency band)
                          (band_Q band) (band_gainDB band)
              | LowShelf \<Rightarrow> designLowShelf flt (m_sampleRate sw) (band_frequency band)
                          (band_Q band) (band_gainDB band)
              | HighShelf \<Rightarrow> designHighShelf flt (m_sampleRate sw) (band_frequency band)
                          (band_Q band) (band_gainDB band)
              | HighPass \<Rightarrow> designHighPass flt (m_sampleRate sw) (band_frequency band)
                          (band_Q band)
              | LowPass \<Rightarrow> designLowPass flt (m_sampleRate sw) (band_frequency band)
                          (band_Q band)
              | AllPass \<Rightarrow> designAllPass flt (m_sampleRate sw) (band_frequency band)
                          (band_Q band)
              | Notch \<Rightarrow> designNotch flt (m_sampleRate sw) (band_frequency band)
                          (band_Q band))
        in sw\<lparr>m_filters := (m_filters sw)[nat bandIndex := flt']\<rparr>)"

function updateAllFilters_loop :: "int \<Rightarrow> SpectralWeaver \<Rightarrow> SpectralWeaver" where
  "updateAllFilters_loop i sw =
     (if i < NUM_BANDS then updateAllFilters_loop (i + 1) (updateFilter i sw) else sw)"
  by pat_completeness auto
termination
  by (relation "measure (\<lambda>(i, sw). nat (NUM_BANDS - i))") auto

declare updateAllFilters_loop.simps [simp del]

definition updateAllFilters :: "SpectralWeaver \<Rightarrow> SpectralWeaver" where
  "updateAllFilters sw = updateAllFilters_loop 0 sw"

definition initializeDefaultBands :: "SpectralWeaver \<Rightarrow> SpectralWeaver" where
  "initializeDefaultBands sw =
     (let sw = assignBand 0 (\<lambda>b. b\<lparr>band_type := HighPass, band_frequency := 30.0,
                 band_Q := 0.707, band_gainDB := 0.0, band_enabled := False\<rparr>) sw;
          sw = assignBand 1 (\<lambda>b. b\<lparr>band_type := LowShelf, band_frequency := 100.0,
                 band_Q := 0.707, band_gainDB := 0.0, band_enabled := False\<rparr>) sw;
          sw = assignBand 2 (\<lambda>b. b\<lparr>band_type := Bell, band_frequency := 250.0,
                 band_Q := 0.707, band_gainDB := 0.0, band_enabled := False\<rparr>) sw;
          sw = assignBand 3 (\<lambda>b. b\<lparr>band_type := Bell, band_frequency := 1000.0,
                 band_Q := 0.707, band_gainDB := 0.0, band_enabled := False\<rparr>) sw;
          sw = assignBand 4 (\<lambda>b. b\<lparr>band_type := Bell, band_frequency := 3000.0,
                 band_Q := 0.707, band_gainDB := 0.0, band_enabled := False\<rparr>) sw;
          sw = assignBand 5 (\<lambda>b. b\<lparr>band_type := HighShelf, band_frequency := 8000.0,
                 band_Q := 0.707, band_gainDB := 0.0, band_enabled := False\<rparr>) sw;
          sw = assignBand 6 (\<lambda>b. b\<lparr>band_type := LowPass, band_frequency := 18000.0,
                 band_Q := 0.707, band_gainDB := 0.0, band_enabled := False\<rparr>) sw
      in updateAllFilters sw)"

text \<open>
  The constructor: the members of the two arrays are default constructed, the
  initialiser list sets the sample rate and the bypass flag, and the body calls
  \<^verbatim>\<open>initializeDefaultBands\<close>.
\<close>

definition SpectralWeaver_ctor :: SpectralWeaver where
  "SpectralWeaver_ctor =
     initializeDefaultBands
       \<lparr>m_bands = replicate (nat NUM_BANDS) EQBand_ctor,
        m_filters = replicate (nat NUM_BANDS) Biquad_ctor,
        m_sampleRate = 44100.0,
        m_bypass = False\<rparr>"

definition initialize :: "double \<Rightarrow> SpectralWeaver \<Rightarrow> SpectralWeaver" where
  "initialize sampleRate sw = updateAllFilters (sw\<lparr>m_sampleRate := sampleRate\<rparr>)"

definition setSampleRate :: "double \<Rightarrow> SpectralWeaver \<Rightarrow> SpectralWeaver" where
  "setSampleRate sampleRate sw =
     (if m_sampleRate sw \<noteq> sampleRate
      then updateAllFilters (sw\<lparr>m_sampleRate := sampleRate\<rparr>)
      else sw)"

definition getSampleRate :: "SpectralWeaver \<Rightarrow> double" where
  "getSampleRate sw = m_sampleRate sw"

definition setBand ::
  "int \<Rightarrow> FilterType \<Rightarrow> double \<Rightarrow> double \<Rightarrow> double \<Rightarrow> SpectralWeaver \<Rightarrow> SpectralWeaver" where
  "setBand bandIndex type frequency Q gainDB sw =
     (if bandIndex < 0 \<or> bandIndex \<ge> NUM_BANDS then sw
      else
        let sw = assignBand bandIndex (\<lambda>b. b\<lparr>band_type := type\<rparr>) sw;
            sw = assignBand bandIndex (\<lambda>b. b\<lparr>band_frequency := frequency\<rparr>) sw;
            sw = assignBand bandIndex (\<lambda>b. b\<lparr>band_Q := Q\<rparr>) sw;
            sw = assignBand bandIndex (\<lambda>b. b\<lparr>band_gainDB := gainDB\<rparr>) sw
        in updateFilter bandIndex sw)"

definition setBandEnabled :: "int \<Rightarrow> bool \<Rightarrow> SpectralWeaver \<Rightarrow> SpectralWeaver" where
  "setBandEnabled bandIndex enabled sw =
     (if bandIndex < 0 \<or> bandIndex \<ge> NUM_BANDS then sw
      else assignBand bandIndex (\<lambda>b. b\<lparr>band_enabled := enabled\<rparr>) sw)"

text \<open>\<^verbatim>\<open>getBand\<close> returns a default constructed \<^verbatim>\<open>static EQBand dummy\<close> for a bad index.\<close>

definition getBand :: "int \<Rightarrow> SpectralWeaver \<Rightarrow> EQBand" where
  "getBand bandIndex sw =
     (if bandIndex < 0 \<or> bandIndex \<ge> NUM_BANDS then EQBand_ctor
      else m_bands sw ! nat bandIndex)"

definition setBandFrequency :: "int \<Rightarrow> double \<Rightarrow> SpectralWeaver \<Rightarrow> SpectralWeaver" where
  "setBandFrequency bandIndex frequency sw =
     (if bandIndex < 0 \<or> bandIndex \<ge> NUM_BANDS then sw
      else updateFilter bandIndex
             (assignBand bandIndex (\<lambda>b. b\<lparr>band_frequency := frequency\<rparr>) sw))"

definition setBandQ :: "int \<Rightarrow> double \<Rightarrow> SpectralWeaver \<Rightarrow> SpectralWeaver" where
  "setBandQ bandIndex Q sw =
     (if bandIndex < 0 \<or> bandIndex \<ge> NUM_BANDS then sw
      else updateFilter bandIndex (assignBand bandIndex (\<lambda>b. b\<lparr>band_Q := Q\<rparr>) sw))"

definition setBandGain :: "int \<Rightarrow> double \<Rightarrow> SpectralWeaver \<Rightarrow> SpectralWeaver" where
  "setBandGain bandIndex gainDB sw =
     (if bandIndex < 0 \<or> bandIndex \<ge> NUM_BANDS then sw
      else updateFilter bandIndex
             (assignBand bandIndex (\<lambda>b. b\<lparr>band_gainDB := gainDB\<rparr>) sw))"

definition setBandType :: "int \<Rightarrow> FilterType \<Rightarrow> SpectralWeaver \<Rightarrow> SpectralWeaver" where
  "setBandType bandIndex type sw =
     (if bandIndex < 0 \<or> bandIndex \<ge> NUM_BANDS then sw
      else updateFilter bandIndex (assignBand bandIndex (\<lambda>b. b\<lparr>band_type := type\<rparr>) sw))"

definition setBypass :: "bool \<Rightarrow> SpectralWeaver \<Rightarrow> SpectralWeaver" where
  "setBypass bypass sw = sw\<lparr>m_bypass := bypass\<rparr>"

definition isBypassed :: "SpectralWeaver \<Rightarrow> bool" where
  "isBypassed sw = m_bypass sw"

text \<open>
  The body of the loop of \<^verbatim>\<open>processSample\<close>: an enabled band's filter processes
  the running sample and is stored back; a disabled band is skipped.
\<close>

function processSample_loop ::
  "int \<Rightarrow> double \<times> SpectralWeaver \<Rightarrow> double \<times> SpectralWeaver" where
  "processSample_loop i (output, sw) =
     (if i < NUM_BANDS then
        processSample_loop (i + 1)
          (if band_enabled (m_bands sw ! nat i) then
             (let (y, flt) = Biquad_process output (m_filters sw ! nat i)
              in (y, sw\<lparr>m_filters := (m_filters sw)[nat i := flt]\<rparr>))
           else (output, sw))
      else (output, sw))"
  by pat_completeness auto
termination
  by (relation "measure (\<lambda>(i, s). nat (NUM_BANDS - i))") auto

declare processSample_loop.simps [simp del]

definition processSample :: "double \<Rightarrow> SpectralWeaver \<Rightarrow> double \<times> SpectralWeaver" where
  "processSample input sw =
     (if m_bypass sw then (input, sw) else processSample_loop 0 (input, sw))"

text \<open>\<^verbatim>\<open>for (int i = 0; i < numSamples; ++i) output[i] = input[i];\<close>\<close>

function copy_loop :: "int \<Rightarrow> addr \<Rightarrow> addr \<Rightarrow> int \<Rightarrow> memory \<Rightarrow> memory" where
  "copy_loop i input output numSamples mem =
     (if i < numSamples
      then copy_loop (i + 1) input output numSamples (mem(output + i := mem (input + i)))
      else mem)"
  by pat_completeness auto
termination
  by (relation "measure (\<lambda>(i, input, output, numSamples, mem). nat (numSamples - i))") auto

declare copy_loop.simps [simp del]

text \<open>
  The band loop of \<^verbatim>\<open>processBlock\<close>: an enabled band's filter runs over the whole
  output buffer in place.
\<close>

function processBlock_loop ::
  "int \<Rightarrow> addr \<Rightarrow> int \<Rightarrow> SpectralWeaver \<times> memory \<Rightarrow> SpectralWeaver \<times> memory" where
  "processBlock_loop band output numSamples (sw, mem) =
     (if band < NUM_BANDS then
        processBlock_loop (band + 1) output numSamples
          (if band_enabled (m_bands sw ! nat band) then
             (let (flt, mem') =
                    Biquad_processBlock output output numSamples
                      (m_filters sw ! nat band, mem)
              in (sw\<lparr>m_filters := (m_filters sw)[nat band := flt]\<rparr>, mem'))
           else (sw, mem))
      else (sw, mem))"
  by pat_completeness auto
termination
  by (relation "measure (\<lambda>(band, output, numSamples, s). nat (NUM_BANDS - band))") auto

declare processBlock_loop.simps [simp del]

definition processBlock ::
  "addr \<Rightarrow> addr \<Rightarrow> int \<Rightarrow> SpectralWeaver \<times> memory \<Rightarrow> SpectralWeaver \<times> memory" where
  "processBlock input output numSamples s =
     (case s of (sw, mem) \<Rightarrow>
        if m_bypass sw then (sw, copy_loop 0 input output numSamples mem)
        else processBlock_loop 0 output numSamples
               (sw, copy_loop 0 input output numSamples mem))"

definition reset :: "SpectralWeaver \<Rightarrow> SpectralWeaver" where
  "reset sw = sw\<lparr>m_filters := map Biquad_reset (m_filters sw)\<rparr>"

definition getNumBands :: int where
  "getNumBands = NUM_BANDS"

subsection \<open>Buffers and sample-by-sample reference runs\<close>

text \<open>The \<open>n\<close> samples of the buffer at address \<open>p\<close>; none when \<open>n \<le> 0\<close>.\<close>

definition load :: "memory \<Rightarrow> addr \<Rightarrow> int \<Rightarrow> double list" where
  "load mem p n = map (\<lambda>j. mem (p + j)) [0..n - 1]"

text \<open>The store with the samples \<open>ys\<close> written to the buffer at address \<open>p\<close>.\<close>

definition store :: "memory \<Rightarrow> addr \<Rightarrow> double list \<Rightarrow> memory" where
  "store mem p ys =
     (\<lambda>a. if p \<le> a \<and> a < p + int (length ys) then ys ! nat (a - p) else mem a)"

text \<open>\<^verbatim>\<open>Biquad::process\<close> called on each sample of a sequence in order.\<close>

fun Biquad_run :: "Biquad \<Rightarrow> double list \<Rightarrow> double list \<times> Biquad" where
  "Biquad_run bq [] = ([], bq)"
| "Biquad_run bq (x # xs) =
     (let (y, bq') = Biquad_process x bq;
          (ys, bq'') = Biquad_run bq' xs
      in (y # ys, bq''))"

text \<open>\<^verbatim>\<open>SpectralWeaver::processSample\<close> called on each sample of a sequence in order.\<close>

fun processSamples :: "SpectralWeaver \<Rightarrow> double list \<Rightarrow> double list \<times> SpectralWeaver" where
  "processSamples sw [] = ([], sw)"
| "processSamples sw (x # xs) =
     (let (y, sw') = processSample x sw;
          (ys, sw'') = processSamples sw' xs
      in (y # ys, sw''))"

text \<open>
  The per-sample cascade from band \<open>i\<close> on (the loop of \<^verbatim>\<open>processSample\<close> entered
  at counter \<open>i\<close>), called on each sample of a sequence in order.
\<close>

fun cascade_from :: "int \<Rightarrow> SpectralWeaver \<Rightarrow> double list \<Rightarrow> double list \<times> SpectralWeaver" where
  "cascade_from i sw [] = ([], sw)"
| "cascade_from i sw (x # xs) =
     (let (y, sw') = processSample_loop i (x, sw);
          (ys, sw'') = cascade_from i sw' xs
      in (y # ys, sw''))"

subsection \<open>The coefficient invariant\<close>

text \<open>
  The five coefficients stored in a filter. An engine is consistent when, for every
  band, \<^verbatim>\<open>updateFilter\<close> would store the coefficients that are stored already:
  they are the ones the design function of the band's type derives from the band's
  frequency, Q and gain and from the engine's sample rate.
\<close>

definition coefficients :: "Biquad \<Rightarrow> double \<times> double \<times> double \<times> double \<times> double" where
  "coefficients bq = (m_b0 bq, m_b1 bq, m_b2 bq, m_a1 bq, m_a2 bq)"

definition coefficients_consistent :: "SpectralWeaver \<Rightarrow> bool" where
  "coefficients_consistent sw \<longleftrightarrow>
     (\<forall>i\<in>{0..<NUM_BANDS}.
        coefficients (m_filters sw ! nat i) =
        coefficients (m_filters (updateFilter i sw) ! nat i))"

definition engine_invariant :: "SpectralWeaver \<Rightarrow> bool" where
  "engine_invariant sw \<longleftrightarrow> well_formed sw \<and> coefficients_consistent sw"

text \<open>The \<^verbatim>\<open>switch\<close> of \<^verbatim>\<open>updateFilter\<close> as a function of the band, the rate and the filter.\<close>

definition dispatchDesign :: "EQBand \<Rightarrow> double \<Rightarrow> Biquad \<Rightarrow> Biquad" where
  "dispatchDesign band sampleRate flt =
     (case band_type band of
        Bell \<Rightarrow> designBell flt sampleRate (band_frequency band) (band_Q band) (band_gainDB band)
      | LowShelf \<Rightarrow> designLowShelf flt sampleRate (band_frequency band) (band_Q band) (band_gainDB band)
      | HighShelf \<Rightarrow> designHighShelf flt sampleRate (band_frequency band) (band_Q band) (band_gainDB band)
      | HighPass \<Rightarrow> designHighPass flt sampleRate (band_frequency band) (band_Q band)
      | LowPass \<Rightarrow> designLowPass flt sampleRate (band_frequency band) (band_Q band)
      | AllPass \<Rightarrow> designAllPass flt sampleRate (band_frequency band) (band_Q band)
      | Notch \<Rightarrow> designNotch flt sampleRate (band_frequency band) (band_Q band))"


text \<open>Band \<open>i\<close> holds the coefficients designed from its descriptor and the rate.\<close>

definition band_ok :: "SpectralWeaver \<Rightarrow> int \<Rightarrow> bool" where
  "band_ok sw i \<longleftrightarrow>
     coefficients (m_filters sw ! nat i) =
     coefficients (dispatchDesign (m_bands sw ! nat i) (m_sampleRate sw) (m_filters sw ! nat i))"

subsection \<open>Example values\<close>

text \<open>A filter, a store holding three samples at address 10, and an engine with bands 0 and 2 enabled.\<close>

definition example_filter :: Biquad where
  "example_filter =
     \<lparr>m_b0 = 1/2, m_b1 = 1/4, m_b2 = 1/8, m_a1 = - 1/2, m_a2 = 1/4, m_z1 = 1, m_z2 = - 1\<rparr>"

definition example_memory :: memory where
  "example_memory = store (\<lambda>a. 0) 10 [1, 2, 4]"

definition example_engine :: SpectralWeaver where
  "example_engine =
     \<lparr>m_bands = [EQBand_ctor\<lparr>band_enabled := True\<rparr>, EQBand_ctor,
                 EQBand_ctor\<lparr>band_enabled := True\<rparr>, EQBand_ctor, EQBand_ctor,
                 EQBand_ctor, EQBand_ctor],
      m_filters = [example_filter, Biquad_ctor, example_filter\<lparr>m_b0 := 2\<rparr>, Biquad_ctor,
                   Biquad_ctor, Biquad_ctor, example_filter],
      m_sampleRate = 48000,
      m_bypass = False\<rparr>"

section \<open>Auxiliary lemmas\<close>

subsection \<open>Block processing of one filter\<close>

lemma Biquad_run_length: "Biquad_run bq xs = (ys, bq') \<Longrightarrow> length ys = length xs"
  by (induction xs arbitrary: bq ys) (auto simp: Let_def split: prod.splits)

lemma Biquad_run_length_fst [simp]: "length (fst (Biquad_run bq xs)) = length xs"
  by (cases "Biquad_run bq xs") (simp add: Biquad_run_length)

lemma load_length [simp]: "length (load mem p n) = nat n"
  by (simp add: load_def)

lemma store_load_same: "store mem p (load mem p n) = mem"
  by (rule ext) (auto simp: store_def load_def)

lemma load_store: "int (length ys) = n \<Longrightarrow> load (store mem p ys) p n = ys"
  by (auto simp: load_def store_def intro!: nth_equalityI)

lemma store_store: "length zs = length ys \<Longrightarrow> store (store mem p ys) p zs = store mem p zs"
  by (rule ext) (auto simp: store_def)

lemma Biquad_processBlock_loop_run:
  assumes "0 \<le> i" "out \<le> inp \<or> inp + n \<le> out"
  shows "Biquad_processBlock_loop i inp out n (bq, mem) =
     (snd (Biquad_run bq (map (\<lambda>j. mem (inp + j)) [i..n - 1])),
      store mem (out + i) (fst (Biquad_run bq (map (\<lambda>j. mem (inp + j)) [i..n - 1]))))"
  using assms
proof (induction i inp out n "(bq, mem)" arbitrary: bq mem rule: Biquad_processBlock_loop.induct)
  case (1 i inp out n bq mem)
  show ?case
  proof (cases "i < n")
    case False
    then show ?thesis
      by (simp add: Biquad_processBlock_loop.simps store_def fun_eq_iff)
  next
    case True
    obtain y bq' where p: "Biquad_process (mem (inp + i)) bq = (y, bq')"
      by (cases "Biquad_process (mem (inp + i)) bq")
    let ?mem' = "mem(out + i := y)"
    have same: "map (\<lambda>j. ?mem' (inp + j)) [i + 1..n - 1] = map (\<lambda>j. mem (inp + j)) [i + 1..n - 1]"
      using "1.prems" by auto
    obtain ys bq'' where r: "Biquad_run bq' (map (\<lambda>j. mem (inp + j)) [i + 1..n - 1]) = (ys, bq'')"
      by (cases "Biquad_run bq' (map (\<lambda>j. mem (inp + j)) [i + 1..n - 1])")
    have ih: "Biquad_processBlock_loop (i + 1) inp out n (bq', ?mem') =
        (bq'', store ?mem' (out + (i + 1)) ys)"
    proof -
      have "0 \<le> i + 1" using "1.prems" by simp
      note h = "1.hyps"[OF True p[symmetric] refl this "1.prems"(2)]
      show ?thesis using h unfolding same r by simp
    qed
    have up: "[i..n - 1] = i # [i + 1..n - 1]"
      using True by (simp add: upto_rec1)
    have st: "store ?mem' (out + (i + 1)) ys = store mem (out + i) (y # ys)"
    proof (rule ext)
      fix a
      show "store ?mem' (out + (i + 1)) ys a = store mem (out + i) (y # ys) a"
      proof (cases "a = out + i")
        case True
        then show ?thesis by (simp add: store_def)
      next
        case False
        have "out + (i + 1) \<le> a \<Longrightarrow> nat (a - (out + i)) = Suc (nat (a - (out + (i + 1))))"
          by linarith
        then show ?thesis using False by (auto simp: store_def)
      qed
    qed
    show ?thesis
      using True p r ih st
      by (subst Biquad_processBlock_loop.simps) (simp add: up)
  qed
qed


lemma Biquad_processBlock_run:
  assumes "out \<le> inp \<or> inp + n \<le> out"
  shows "Biquad_processBlock inp out n (bq, mem) =
     (snd (Biquad_run bq (load mem inp n)), store mem out (fst (Biquad_run bq (load mem inp n))))"
  using Biquad_processBlock_loop_run[of 0 out inp n bq mem] assms
  by (simp add: Biquad_processBlock_def load_def)

lemma copy_loop_store:
  assumes "0 \<le> i" "out \<le> inp \<or> inp + n \<le> out"
  shows "copy_loop i inp out n mem = store mem (out + i) (map (\<lambda>j. mem (inp + j)) [i..n - 1])"
  using assms
proof (induction i inp out n mem rule: copy_loop.induct)
  case (1 i inp out n mem)
  show ?case
  proof (cases "i < n")
    case False
    then show ?thesis
      by (simp add: copy_loop.simps store_def fun_eq_iff)
  next
    case True
    let ?mem' = "mem(out + i := mem (inp + i))"
    have same: "map (\<lambda>j. ?mem' (inp + j)) [i + 1..n - 1] = map (\<lambda>j. mem (inp + j)) [i + 1..n - 1]"
      using "1.prems" by auto
    have ih: "copy_loop (i + 1) inp out n ?mem' =
        store ?mem' (out + (i + 1)) (map (\<lambda>j. mem (inp + j)) [i + 1..n - 1])"
    proof -
      have "0 \<le> i + 1" using "1.prems" by simp
      note h = "1.IH"[OF True this "1.prems"(2)]
      show ?thesis using h by (simp only: same)
    qed
    have up: "[i..n - 1] = i # [i + 1..n - 1]"
      using True by (simp add: upto_rec1)
    have st: "store ?mem' (out + (i + 1)) ys = store mem (out + i) (mem (inp + i) # ys)" for ys
    proof (rule ext)
      fix a
      show "store ?mem' (out + (i + 1)) ys a = store mem (out + i) (mem (inp + i) # ys) a"
      proof (cases "a = out + i")
        case True
        then show ?thesis by (simp add: store_def)
      next
        case False
        have "out + (i + 1) \<le> a \<Longrightarrow> nat (a - (out + i)) = Suc (nat (a - (out + (i + 1))))"
          by linarith
        then show ?thesis using False by (auto simp: store_def)
      qed
    qed
    show ?thesis
      using True ih st
      by (subst copy_loop.simps) (simp add: up)
  qed
qed

lemma copy_loop_load:
  assumes "out \<le> inp \<or> inp + n \<le> out"
  shows "copy_loop 0 inp out n mem = store mem out (load mem inp n)"
  using copy_loop_store[of 0 out inp n mem] assms by (simp add: load_def)



lemma processSample_loop_frame:
  "processSample_loop i (x, sw) = (y, sw') \<Longrightarrow>
     m_bands sw' = m_bands sw \<and> m_sampleRate sw' = m_sampleRate sw \<and>
     m_bypass sw' = m_bypass sw \<and> length (m_filters sw') = length (m_filters sw)"
proof (induction i "(x, sw)" arbitrary: x sw rule: processSample_loop.induct)
  case (1 i x sw)
  show ?case
  proof (cases "i < NUM_BANDS")
    case False
    then show ?thesis using "1.prems" by (simp add: processSample_loop.simps)
  next
    case True
    show ?thesis
    proof (cases "band_enabled (m_bands sw ! nat i)")
      case False
      then show ?thesis
        using True "1.prems" "1.hyps"[OF True, of x sw]
        by (simp add: processSample_loop.simps[of i])
    next
      case en: True
      obtain y1 f1 where p: "Biquad_process x (m_filters sw ! nat i) = (y1, f1)"
        by (cases "Biquad_process x (m_filters sw ! nat i)")
      let ?sw1 = "sw\<lparr>m_filters := (m_filters sw)[nat i := f1]\<rparr>"
      have "processSample_loop (i + 1) (y1, ?sw1) = (y, sw')"
        using True en p "1.prems" by (simp add: processSample_loop.simps[of i])
      from "1.hyps"[OF True _ this] en p show ?thesis by simp
    qed
  qed
qed


lemma processSample_loop_update:
  assumes "0 \<le> k" "k < i" "processSample_loop i (x, sw) = (y, sw')"
  shows "processSample_loop i (x, sw\<lparr>m_filters := (m_filters sw)[nat k := f]\<rparr>) =
           (y, sw'\<lparr>m_filters := (m_filters sw')[nat k := f]\<rparr>)"
  using assms
proof (induction i "(x, sw)" arbitrary: x sw rule: processSample_loop.induct)
  case (1 i x sw)
  let ?swk = "sw\<lparr>m_filters := (m_filters sw)[nat k := f]\<rparr>"
  have ne: "nat i \<noteq> nat k" using "1.prems" by linarith
  show ?case
  proof (cases "i < NUM_BANDS")
    case False
    then show ?thesis using "1.prems" by (simp add: processSample_loop.simps)
  next
    case True
    have k1: "k < i + 1" using "1.prems" by simp
    show ?thesis
    proof (cases "band_enabled (m_bands sw ! nat i)")
      case False
      then have "processSample_loop (i + 1) (x, sw) = (y, sw')"
        using True "1.prems" by (simp add: processSample_loop.simps[of i])
      from "1.hyps"[OF True _ "1.prems"(1) k1 this] False
      have "processSample_loop (i + 1) (x, ?swk) =
          (y, sw'\<lparr>m_filters := (m_filters sw')[nat k := f]\<rparr>)"
        by simp
      then show ?thesis
        using True False by (simp add: processSample_loop.simps[of i])
    next
      case en: True
      obtain y1 f1 where p: "Biquad_process x (m_filters sw ! nat i) = (y1, f1)"
        by (cases "Biquad_process x (m_filters sw ! nat i)")
      let ?sw1 = "sw\<lparr>m_filters := (m_filters sw)[nat i := f1]\<rparr>"
      have "processSample_loop (i + 1) (y1, ?sw1) = (y, sw')"
        using True en p "1.prems" by (simp add: processSample_loop.simps[of i])
      from "1.hyps"[OF True _ "1.prems"(1) k1 this] en p
      have "processSample_loop (i + 1)
              (y1, ?sw1\<lparr>m_filters := (m_filters ?sw1)[nat k := f]\<rparr>) =
          (y, sw'\<lparr>m_filters := (m_filters sw')[nat k := f]\<rparr>)"
        by simp
      moreover have "?sw1\<lparr>m_filters := (m_filters ?sw1)[nat k := f]\<rparr> =
          ?swk\<lparr>m_filters := (m_filters ?swk)[nat i := f1]\<rparr>"
        using ne by (simp add: list_update_swap)
      moreover have "m_filters ?swk ! nat i = m_filters sw ! nat i"
        using ne by simp
      ultimately show ?thesis
        using True en p by (simp add: processSample_loop.simps[of i])
    qed
  qed
qed

lemma cascade_from_length:
  "cascade_from i sw xs = (ys, sw') \<Longrightarrow> length ys = length xs"
  by (induction xs arbitrary: sw ys) (auto simp: Let_def split: prod.splits)

lemma cascade_from_past_end:
  "NUM_BANDS \<le> i \<Longrightarrow> cascade_from i sw xs = (xs, sw)"
  by (induction xs arbitrary: sw) (simp_all add: processSample_loop.simps)

lemma cascade_from_disabled:
  assumes "i < NUM_BANDS" "\<not> band_enabled (m_bands sw ! nat i)"
  shows "cascade_from i sw xs = cascade_from (i + 1) sw xs"
  using assms(2)
proof (induction xs arbitrary: sw)
  case Nil
  show ?case by simp
next
  case (Cons x xs)
  have step: "processSample_loop i (x, sw) = processSample_loop (i + 1) (x, sw)"
    using assms(1) Cons.prems by (simp add: processSample_loop.simps[of i])
  obtain y sw1 where r: "processSample_loop (i + 1) (x, sw) = (y, sw1)"
    by (cases "processSample_loop (i + 1) (x, sw)")
  have "m_bands sw1 = m_bands sw"
    using processSample_loop_frame[OF r] by simp
  then have "cascade_from i sw1 xs = cascade_from (i + 1) sw1 xs"
    using Cons.IH[of sw1] Cons.prems by simp
  then show ?case using step r by simp
qed

lemma cascade_from_enabled:
  assumes "0 \<le> i" "i < NUM_BANDS" "nat i < length (m_filters sw)"
    "band_enabled (m_bands sw ! nat i)"
    "Biquad_run (m_filters sw ! nat i) xs = (ys, flt)"
  shows "cascade_from i sw xs =
     cascade_from (i + 1) (sw\<lparr>m_filters := (m_filters sw)[nat i := flt]\<rparr>) ys"
  using assms(3-)
proof (induction xs arbitrary: sw ys)
  case Nil
  then have "(m_filters sw)[nat i := flt] = m_filters sw"
    by (auto simp: list_update_same_conv)
  then show ?case using Nil by simp
next
  case (Cons x xs)
  obtain y1 f1 where p: "Biquad_process x (m_filters sw ! nat i) = (y1, f1)"
    by (cases "Biquad_process x (m_filters sw ! nat i)")
  obtain ys' where r: "Biquad_run f1 xs = (ys', flt)" and ys: "ys = y1 # ys'"
    using Cons.prems(3) p by (auto simp: Let_def split: prod.splits)
  let ?sw1 = "sw\<lparr>m_filters := (m_filters sw)[nat i := f1]\<rparr>"
  obtain y sw2 where l: "processSample_loop (i + 1) (y1, ?sw1) = (y, sw2)"
    by (cases "processSample_loop (i + 1) (y1, ?sw1)")
  have step: "processSample_loop i (x, sw) = (y, sw2)"
    using assms(2) Cons.prems(2) p l by (simp add: processSample_loop.simps[of i])
  have i1: "i < i + 1" by simp
  note fr = processSample_loop_frame[OF l]
  obtain sw0 where l0: "processSample_loop (i + 1) (y1, sw) = (y, sw0)"
    and sw2: "sw2 = sw0\<lparr>m_filters := (m_filters sw0)[nat i := f1]\<rparr>"
  proof -
    obtain y0 sw0 where a: "processSample_loop (i + 1) (y1, sw) = (y0, sw0)"
      by (cases "processSample_loop (i + 1) (y1, sw)")
    from processSample_loop_update[OF assms(1) i1 a, of f1] l
    have "y0 = y" "sw2 = sw0\<lparr>m_filters := (m_filters sw0)[nat i := f1]\<rparr>" by simp_all
    with a that show ?thesis by simp
  qed
  have len0: "length (m_filters sw0) = length (m_filters sw)"
    using processSample_loop_frame[OF l0] by simp
  have f2: "m_filters sw2 ! nat i = f1"
    using sw2 len0 Cons.prems(1) by simp
  have ih: "cascade_from i sw2 xs =
      cascade_from (i + 1) (sw2\<lparr>m_filters := (m_filters sw2)[nat i := flt]\<rparr>) ys'"
    using Cons.IH[of sw2 ys'] fr Cons.prems(1,2) f2 r by simp
  have "sw2\<lparr>m_filters := (m_filters sw2)[nat i := flt]\<rparr> =
      sw0\<lparr>m_filters := (m_filters sw0)[nat i := flt]\<rparr>"
    using sw2 by simp
  moreover have "processSample_loop (i + 1)
       (y1, sw\<lparr>m_filters := (m_filters sw)[nat i := flt]\<rparr>) =
       (y, sw0\<lparr>m_filters := (m_filters sw0)[nat i := flt]\<rparr>)"
    by (rule processSample_loop_update[OF assms(1) i1 l0])
  ultimately show ?case
    using step ih ys by simp
qed


lemma processBlock_loop_cascade:
  assumes "0 \<le> band" "int (length (m_filters sw)) = NUM_BANDS"
    "cascade_from band sw (load mem out n) = (zs, sw')"
  shows "processBlock_loop band out n (sw, mem) = (sw', store mem out zs)"
  using assms
proof (induction band out n "(sw, mem)" arbitrary: sw mem rule: processBlock_loop.induct)
  case (1 band out n sw mem)
  show ?case
  proof (cases "band < NUM_BANDS")
    case False
    then have "zs = load mem out n" "sw' = sw"
      using "1.prems"(3) by (simp_all add: cascade_from_past_end)
    then show ?thesis
      using False by (simp add: processBlock_loop.simps store_load_same)
  next
    case True
    have b1: "0 \<le> band + 1" using "1.prems"(1) by simp
    show ?thesis
    proof (cases "band_enabled (m_bands sw ! nat band)")
      case False
      have "cascade_from (band + 1) sw (load mem out n) = (zs, sw')"
        using cascade_from_disabled[OF True False] "1.prems"(3) by simp
      from "1.hyps"[OF True _ b1 "1.prems"(2) this] False
      have "processBlock_loop (band + 1) out n (sw, mem) = (sw', store mem out zs)"
        by simp
      then show ?thesis
        using True False by (simp add: processBlock_loop.simps[of band])
    next
      case en: True
      obtain ys flt where r: "Biquad_run (m_filters sw ! nat band) (load mem out n) = (ys, flt)"
        by (cases "Biquad_run (m_filters sw ! nat band) (load mem out n)")
      let ?sw1 = "sw\<lparr>m_filters := (m_filters sw)[nat band := flt]\<rparr>"
      let ?mem1 = "store mem out ys"
      have pb: "Biquad_processBlock out out n (m_filters sw ! nat band, mem) = (flt, ?mem1)"
        using Biquad_processBlock_run[of out out n "m_filters sw ! nat band" mem] r by simp
      have lt: "nat band < length (m_filters sw)"
        using True "1.prems"(1,2) by linarith
      have c: "cascade_from (band + 1) ?sw1 ys = (zs, sw')"
        using cascade_from_enabled[OF "1.prems"(1) True lt en r] "1.prems"(3) by simp
      have leny: "length ys = nat n"
        using Biquad_run_length[OF r] by simp
      have ld: "load ?mem1 out n = ys"
      proof (cases "0 \<le> n")
        case True
        then show ?thesis using leny by (simp add: load_store)
      next
        case False
        then show ?thesis using leny by (simp add: load_def)
      qed
      have lenz: "length zs = length ys"
        using cascade_from_length[OF c] .
      have len1: "int (length (m_filters ?sw1)) = NUM_BANDS"
        using "1.prems"(2) by simp
      have c': "cascade_from (band + 1) ?sw1 (load ?mem1 out n) = (zs, sw')"
        using c ld by simp
      have "processBlock_loop (band + 1) out n (?sw1, ?mem1) = (sw', store ?mem1 out zs)"
        using "1.hyps"[OF True _ b1 len1 c'] en pb by simp
      then show ?thesis
        using True en pb lenz by (simp add: processBlock_loop.simps[of band] store_store)
    qed
  qed
qed

lemma processSamples_cascade:
  "\<not> m_bypass sw \<Longrightarrow> processSamples sw xs = cascade_from 0 sw xs"
proof (induction xs arbitrary: sw)
  case Nil
  show ?case by simp
next
  case (Cons x xs)
  obtain y sw1 where l: "processSample_loop 0 (x, sw) = (y, sw1)"
    by (cases "processSample_loop 0 (x, sw)")
  have "\<not> m_bypass sw1"
    using processSample_loop_frame[OF l] Cons.prems by simp
  from Cons.IH[OF this] l Cons.prems show ?case
    by (simp add: processSample_def)
qed


lemma processBlock_processSamples:
  assumes "well_formed sw" "\<not> m_bypass sw"
    "output \<le> input \<or> input + numSamples \<le> output"
  shows "processBlock input output numSamples (sw, mem) =
           (snd (processSamples sw (load mem input numSamples)),
            store mem output (fst (processSamples sw (load mem input numSamples))))"
proof -
  let ?xs = "load mem input numSamples"
  let ?mem0 = "copy_loop 0 input output numSamples mem"
  obtain zs sw' where c: "cascade_from 0 sw ?xs = (zs, sw')"
    by (cases "cascade_from 0 sw ?xs")
  have m0: "?mem0 = store mem output ?xs"
    using copy_loop_load[OF assms(3)] .
  have ld: "load ?mem0 output numSamples = ?xs"
  proof (cases "0 \<le> numSamples")
    case True
    then show ?thesis unfolding m0 by (simp add: load_store)
  next
    case False
    then show ?thesis by (simp add: load_def)
  qed
  have len: "int (length (m_filters sw)) = NUM_BANDS"
    using assms(1) by (simp add: well_formed_def)
  have "processBlock_loop 0 output numSamples (sw, ?mem0) = (sw', store ?mem0 output zs)"
    using processBlock_loop_cascade[of 0 sw ?mem0 "output" numSamples zs sw'] len c ld by simp
  moreover have "store ?mem0 output zs = store mem output zs"
    unfolding m0 using cascade_from_length[OF c] by (simp add: store_store)
  ultimately show ?thesis
    using assms(2) c by (simp add: processBlock_def processSamples_cascade)
qed

subsection \<open>A lower bound of \<open>pi\<close>\<close>





subsection \<open>Coefficient updates\<close>

lemmas design_defs = designBell_def designLowShelf_def designHighShelf_def designHighPass_def
  designLowPass_def designAllPass_def designNotch_def

lemma Biquad_eqI:
  "coefficients a = coefficients b \<Longrightarrow> m_z1 a = m_z1 b \<Longrightarrow> m_z2 a = m_z2 b \<Longrightarrow> a = (b :: Biquad)"
  by (cases a, cases b) (simp add: coefficients_def)

lemma dispatchDesign_z [simp]:
  "m_z1 (dispatchDesign band sr flt) = m_z1 flt" "m_z2 (dispatchDesign band sr flt) = m_z2 flt"
  by (cases "band_type band"; simp add: dispatchDesign_def design_defs setCoefficients_def Let_def)+

lemma dispatchDesign_coefficients:
  "coefficients (dispatchDesign band sr flt) = coefficients (dispatchDesign band sr flt')"
  by (cases "band_type band"; simp add: dispatchDesign_def design_defs setCoefficients_def Let_def coefficients_def)

lemma dispatchDesign_enabled [simp]:
  "dispatchDesign (band\<lparr>band_enabled := e\<rparr>) sr flt = dispatchDesign band sr flt"
  by (simp add: dispatchDesign_def split: FilterType.split)

lemma dispatchDesign_reset:
  "coefficients (dispatchDesign band sr (Biquad_reset flt)) = coefficients (dispatchDesign band sr flt)"
  by (rule dispatchDesign_coefficients)

lemma dispatchDesign_idem [simp]:
  "dispatchDesign band sr (dispatchDesign band sr flt) = dispatchDesign band sr flt"
  by (rule Biquad_eqI) (simp_all add: dispatchDesign_coefficients[of band sr "dispatchDesign band sr flt" flt])

lemma updateFilter_dispatch:
  "updateFilter i sw =
     (if i < 0 \<or> NUM_BANDS \<le> i then sw
      else sw\<lparr>m_filters := (m_filters sw)[nat i :=
             dispatchDesign (m_bands sw ! nat i) (m_sampleRate sw) (m_filters sw ! nat i)]\<rparr>)"
  by (simp add: updateFilter_def dispatchDesign_def Let_def)

lemma updateFilter_frame [simp]:
  "m_bands (updateFilter i sw) = m_bands sw"
  "m_sampleRate (updateFilter i sw) = m_sampleRate sw"
  "m_bypass (updateFilter i sw) = m_bypass sw"
  "length (m_filters (updateFilter i sw)) = length (m_filters sw)"
  by (simp_all add: updateFilter_dispatch)

lemma well_formed_updateFilter [simp]: "well_formed (updateFilter i sw) = well_formed sw"
  by (simp add: well_formed_def)


lemma consistent_band_ok:
  "well_formed sw \<Longrightarrow>
   coefficients_consistent sw \<longleftrightarrow> (\<forall>i\<in>{0..<NUM_BANDS}. band_ok sw i)"
  unfolding coefficients_consistent_def band_ok_def
  by (intro ball_cong refl) (auto simp: updateFilter_dispatch well_formed_def)

lemma engine_invariant_band_ok:
  "engine_invariant sw \<longleftrightarrow> well_formed sw \<and> (\<forall>i\<in>{0..<NUM_BANDS}. band_ok sw i)"
  using consistent_band_ok[of sw] by (auto simp: engine_invariant_def)

lemma band_ok_updateFilter_same:
  "0 \<le> i \<Longrightarrow> i < NUM_BANDS \<Longrightarrow> well_formed sw \<Longrightarrow> band_ok (updateFilter i sw) i"
proof -
  assume a: "0 \<le> i" "i < NUM_BANDS" "well_formed sw"
  then have "nat i < length (m_filters sw)"
    unfolding well_formed_def by linarith
  then show ?thesis
    using a by (simp add: band_ok_def updateFilter_dispatch)
qed

lemma band_ok_updateFilter_other:
  "0 \<le> j \<Longrightarrow> j \<noteq> i \<Longrightarrow> band_ok (updateFilter i sw) j = band_ok sw j"
  by (auto simp: band_ok_def updateFilter_dispatch)

lemma updateAllFilters_loop_frame:
  "m_bands (updateAllFilters_loop i sw) = m_bands sw \<and>
   m_sampleRate (updateAllFilters_loop i sw) = m_sampleRate sw \<and>
   m_bypass (updateAllFilters_loop i sw) = m_bypass sw \<and>
   length (m_filters (updateAllFilters_loop i sw)) = length (m_filters sw)"
proof (induction i sw rule: updateAllFilters_loop.induct)
  case (1 i sw)
  then show ?case
    by (subst (1 2 3 4) updateAllFilters_loop.simps) simp
qed

lemma updateAllFilters_loop_ok:
  assumes "0 \<le> i" "well_formed sw" "\<forall>j\<in>{0..<i}. band_ok sw j"
  shows "\<forall>j\<in>{0..<NUM_BANDS}. band_ok (updateAllFilters_loop i sw) j"
  using assms
proof (induction i sw rule: updateAllFilters_loop.induct)
  case (1 i sw)
  show ?case
  proof (cases "i < NUM_BANDS")
    case False
    then show ?thesis using "1.prems"(3)
      by (subst updateAllFilters_loop.simps) auto
  next
    case True
    have "\<forall>j\<in>{0..<i + 1}. band_ok (updateFilter i sw) j"
    proof
      fix j assume j: "j \<in> {0..<i + 1}"
      show "band_ok (updateFilter i sw) j"
      proof (cases "j = i")
        case True
        then show ?thesis
          using band_ok_updateFilter_same[of i sw] "1.prems" \<open>i < NUM_BANDS\<close> by simp
      next
        case False
        then show ?thesis
          using band_ok_updateFilter_other[of j i sw] j "1.prems"(3) by auto
      qed
    qed
    from "1.IH"[OF True _ _ this] "1.prems"(1,2)
    have "\<forall>j\<in>{0..<NUM_BANDS}. band_ok (updateAllFilters_loop (i + 1) (updateFilter i sw)) j"
      by simp
    then show ?thesis
      using True by (subst updateAllFilters_loop.simps) simp
  qed
qed

lemma updateAllFilters_frame [simp]:
  "m_bands (updateAllFilters sw) = m_bands sw"
  "m_sampleRate (updateAllFilters sw) = m_sampleRate sw"
  "m_bypass (updateAllFilters sw) = m_bypass sw"
  "length (m_filters (updateAllFilters sw)) = length (m_filters sw)"
  using updateAllFilters_loop_frame[of 0 sw] by (simp_all add: updateAllFilters_def)

lemma well_formed_updateAllFilters [simp]: "well_formed (updateAllFilters sw) = well_formed sw"
  by (simp add: well_formed_def)

lemma updateAllFilters_invariant:
  "well_formed sw \<Longrightarrow> engine_invariant (updateAllFilters sw)"
  using updateAllFilters_loop_ok[of 0 sw]
  by (simp add: engine_invariant_band_ok updateAllFilters_def[symmetric])


lemma assignBand_frame [simp]:
  "m_filters (assignBand i upd sw) = m_filters sw"
  "m_sampleRate (assignBand i upd sw) = m_sampleRate sw"
  "m_bypass (assignBand i upd sw) = m_bypass sw"
  "length (m_bands (assignBand i upd sw)) = length (m_bands sw)"
  by (simp_all add: assignBand_def)

lemma well_formed_assignBand [simp]: "well_formed (assignBand i upd sw) = well_formed sw"
  by (simp add: well_formed_def)

lemma band_ok_assignBand_other:
  "0 \<le> j \<Longrightarrow> 0 \<le> i \<Longrightarrow> j \<noteq> i \<Longrightarrow> band_ok (assignBand i upd sw) j = band_ok sw j"
  by (auto simp: band_ok_def assignBand_def)

lemma band_ok_assignBand_enabled:
  "band_ok (assignBand i (\<lambda>b. b\<lparr>band_enabled := e\<rparr>) sw) j = band_ok sw j"
proof (cases "nat j = nat i \<and> nat i < length (m_bands sw)")
  case True
  then show ?thesis by (simp add: band_ok_def assignBand_def)
next
  case False
  then have "(m_bands sw)[nat i := (m_bands sw ! nat i)\<lparr>band_enabled := e\<rparr>] ! nat j
      = m_bands sw ! nat j"
    by (cases "nat i < length (m_bands sw)") (auto simp: list_update_beyond)
  then show ?thesis by (simp add: band_ok_def assignBand_def)
qed

text \<open>A setter that changes band \<open>i\<close> alone and then recomputes band \<open>i\<close>.\<close>

lemma invariant_assign_update:
  assumes "engine_invariant sw" "0 \<le> i" "i < NUM_BANDS"
  shows "engine_invariant (updateFilter i (assignBand i upd sw))"
proof -
  have wf: "well_formed sw" and ok: "\<forall>j\<in>{0..<NUM_BANDS}. band_ok sw j"
    using assms(1) by (simp_all add: engine_invariant_band_ok)
  let ?sw = "updateFilter i (assignBand i upd sw)"
  have wf': "well_formed ?sw" using wf by simp
  have "band_ok ?sw j" if j: "j \<in> {0..<NUM_BANDS}" for j
  proof (cases "j = i")
    case True
    then show ?thesis
      using band_ok_updateFilter_same[of i "assignBand i upd sw"] assms(2,3) wf by simp
  next
    case False
    then show ?thesis
      using j ok assms(2)
      by (simp add: band_ok_updateFilter_other band_ok_assignBand_other)
  qed
  then show ?thesis
    using wf' by (simp add: engine_invariant_band_ok)
qed

lemma assignBand_assignBand:
  "assignBand i f (assignBand i g sw) = assignBand i (f \<circ> g) sw"
  by (cases "nat i < length (m_bands sw)") (simp_all add: assignBand_def list_update_beyond)

lemma setBand_alt:
  "setBand i t f q g sw =
     (if i < 0 \<or> NUM_BANDS \<le> i then sw
      else updateFilter i (assignBand i
             ((\<lambda>b. b\<lparr>band_gainDB := g\<rparr>) \<circ> ((\<lambda>b. b\<lparr>band_Q := q\<rparr>) \<circ>
               ((\<lambda>b. b\<lparr>band_frequency := f\<rparr>) \<circ> (\<lambda>b. b\<lparr>band_type := t\<rparr>)))) sw))"
  by (simp add: setBand_def Let_def assignBand_assignBand o_assoc)

lemma invariant_setBand: "engine_invariant sw \<Longrightarrow> engine_invariant (setBand i t f q g sw)"
  by (simp add: setBand_alt invariant_assign_update)

lemma invariant_setBandFrequency:
  "engine_invariant sw \<Longrightarrow> engine_invariant (setBandFrequency i f sw)"
  by (simp add: setBandFrequency_def invariant_assign_update)

lemma invariant_setBandQ: "engine_invariant sw \<Longrightarrow> engine_invariant (setBandQ i q sw)"
  by (simp add: setBandQ_def invariant_assign_update)

lemma invariant_setBandGain: "engine_invariant sw \<Longrightarrow> engine_invariant (setBandGain i g sw)"
  by (simp add: setBandGain_def invariant_assign_update)

lemma invariant_setBandType: "engine_invariant sw \<Longrightarrow> engine_invariant (setBandType i t sw)"
  by (simp add: setBandType_def invariant_assign_update)

lemma invariant_setBandEnabled:
  "engine_invariant sw \<Longrightarrow> engine_invariant (setBandEnabled i e sw)"
  by (simp add: setBandEnabled_def engine_invariant_band_ok band_ok_assignBand_enabled)

lemma invariant_setBypass: "engine_invariant sw \<Longrightarrow> engine_invariant (setBypass b sw)"
  by (simp add: setBypass_def engine_invariant_band_ok well_formed_def band_ok_def)

lemma invariant_reset: "engine_invariant sw \<Longrightarrow> engine_invariant (reset sw)"
proof -
  assume inv: "engine_invariant sw"
  then have wf: "well_formed sw" and ok: "\<forall>j\<in>{0..<NUM_BANDS}. band_ok sw j"
    by (simp_all add: engine_invariant_band_ok)
  have wf': "well_formed (reset sw)"
    using wf by (simp add: well_formed_def reset_def)
  have "band_ok (reset sw) j" if j: "j \<in> {0..<NUM_BANDS}" for j
  proof -
    have lt: "nat j < length (m_filters sw)"
      using j wf unfolding well_formed_def by auto
    have "coefficients (Biquad_reset (m_filters sw ! nat j)) = coefficients (m_filters sw ! nat j)"
      by (simp add: coefficients_def Biquad_reset_def)
    then show ?thesis
      using ok j lt
      by (simp add: band_ok_def reset_def
          dispatchDesign_coefficients[of _ _ "Biquad_reset (m_filters sw ! nat j)" "m_filters sw ! nat j"])
  qed
  then show ?thesis
    using wf' by (simp add: engine_invariant_band_ok)
qed

lemma invariant_initialize: "well_formed sw \<Longrightarrow> engine_invariant (initialize sr sw)"
  by (simp add: initialize_def updateAllFilters_invariant well_formed_def)

lemma invariant_setSampleRate: "engine_invariant sw \<Longrightarrow> engine_invariant (setSampleRate sr sw)"
  using updateAllFilters_invariant[of "sw\<lparr>m_sampleRate := sr\<rparr>"]
  by (simp add: setSampleRate_def well_formed_def engine_invariant_def)

lemma invariant_ctor: "engine_invariant SpectralWeaver_ctor"
  unfolding SpectralWeaver_ctor_def initializeDefaultBands_def Let_def
  by (rule updateAllFilters_invariant) (simp add: well_formed_def NUM_BANDS_def)


subsection \<open>Further facts used by the theorems\<close>

lemma load_store_nat: "length ys = nat n \<Longrightarrow> load (store mem p ys) p n = ys"
proof (cases "0 \<le> n")
  case True
  assume "length ys = nat n"
  then have "int (length ys) = n" using True by simp
  then show ?thesis by (rule load_store)
next
  case False
  assume "length ys = nat n"
  then show ?thesis using False by (simp add: load_def)
qed

lemma copy_verbatim:
  assumes "output \<le> input \<or> input + numSamples \<le> output"
  shows "load (copy_loop 0 input output numSamples mem) output numSamples =
           load mem input numSamples"
  by (simp add: copy_loop_load[OF assms] load_store_nat)

lemma processSample_loop_all_disabled:
  assumes "0 \<le> i" "\<forall>j\<in>{0..<NUM_BANDS}. \<not> band_enabled (m_bands sw ! nat j)"
  shows "processSample_loop i (x, sw) = (x, sw)"
  using assms
proof (induction i "(x, sw)" arbitrary: x sw rule: processSample_loop.induct)
  case (1 i x sw)
  show ?case
  proof (cases "i < NUM_BANDS")
    case False
    then show ?thesis by (simp add: processSample_loop.simps)
  next
    case True
    then have off: "\<not> band_enabled (m_bands sw ! nat i)"
      using "1.prems" by simp
    have "processSample_loop (i + 1) (x, sw) = (x, sw)"
      using "1.hyps"[OF True, of x sw] off "1.prems" by simp
    then show ?thesis
      using True off by (simp add: processSample_loop.simps[of i])
  qed
qed

lemma processBlock_loop_all_disabled:
  assumes "0 \<le> band" "\<forall>j\<in>{0..<NUM_BANDS}. \<not> band_enabled (m_bands sw ! nat j)"
  shows "processBlock_loop band out n (sw, mem) = (sw, mem)"
  using assms
proof (induction band out n "(sw, mem)" arbitrary: sw mem rule: processBlock_loop.induct)
  case (1 band out n sw mem)
  show ?case
  proof (cases "band < NUM_BANDS")
    case False
    then show ?thesis by (simp add: processBlock_loop.simps)
  next
    case True
    then have off: "\<not> band_enabled (m_bands sw ! nat band)"
      using "1.prems" by simp
    have "processBlock_loop (band + 1) out n (sw, mem) = (sw, mem)"
      using "1.hyps"[OF True, of sw mem] off "1.prems" by simp
    then show ?thesis
      using True off by (simp add: processBlock_loop.simps[of band])
  qed
qed

lemma ctor_bands:
  "m_bands SpectralWeaver_ctor =
     [\<lparr>band_type = HighPass, band_frequency = 30, band_Q = 0.707, band_gainDB = 0,
       band_enabled = False\<rparr>,
      \<lparr>band_type = LowShelf, band_frequency = 100, band_Q = 0.707, band_gainDB = 0,
       band_enabled = False\<rparr>,
      \<lparr>band_type = Bell, band_frequency = 250, band_Q = 0.707, band_gainDB = 0,
       band_enabled = False\<rparr>,
      \<lparr>band_type = Bell, band_frequency = 1000, band_Q = 0.707, band_gainDB = 0,
       band_enabled = False\<rparr>,
      \<lparr>band_type = Bell, band_frequency = 3000, band_Q = 0.707, band_gainDB = 0,
       band_enabled = False\<rparr>,
      \<lparr>band_type = HighShelf, band_frequency = 8000, band_Q = 0.707, band_gainDB = 0,
       band_enabled = False\<rparr>,
      \<lparr>band_type = LowPass, band_frequency = 18000, band_Q = 0.707, band_gainDB = 0,
       band_enabled = False\<rparr>]"
  by (simp add: SpectralWeaver_ctor_def initializeDefaultBands_def Let_def assignBand_def
      NUM_BANDS_def EQBand_ctor_def eval_nat_numeral)

lemma ctor_all_disabled:
  "\<forall>i\<in>{0..<NUM_BANDS}. \<not> band_enabled (m_bands SpectralWeaver_ctor ! nat i)"
proof
  fix i assume "i \<in> {0..<NUM_BANDS}"
  then have "nat i < 7"
    unfolding NUM_BANDS_def atLeastLessThan_iff by linarith
  then have "nat i < length (m_bands SpectralWeaver_ctor)"
    by (simp add: ctor_bands)
  then have "m_bands SpectralWeaver_ctor ! nat i \<in> set (m_bands SpectralWeaver_ctor)"
    by (rule nth_mem)
  then show "\<not> band_enabled (m_bands SpectralWeaver_ctor ! nat i)"
    unfolding ctor_bands by auto
qed

lemma ctor_not_bypassed: "\<not> m_bypass SpectralWeaver_ctor"
  by (simp add: SpectralWeaver_ctor_def initializeDefaultBands_def Let_def)

lemma dispatchDesign_gain:
  "band_type band \<in> {HighPass, LowPass, AllPass, Notch} \<Longrightarrow>
   dispatchDesign (band\<lparr>band_gainDB := g\<rparr>) sr flt = dispatchDesign band sr flt"
  by (auto simp: dispatchDesign_def)



text \<open>
  In a consistent engine every filter is a fixed point of its band's design function.
\<close>

lemma engine_invariant_designed:
  assumes "engine_invariant sw" "i \<in> {0..<NUM_BANDS}"
  shows "dispatchDesign (m_bands sw ! nat i) (m_sampleRate sw) (m_filters sw ! nat i) =
           m_filters sw ! nat i"
proof (rule Biquad_eqI)
  show "coefficients (dispatchDesign (m_bands sw ! nat i) (m_sampleRate sw)
          (m_filters sw ! nat i)) = coefficients (m_filters sw ! nat i)"
    using assms by (simp add: engine_invariant_band_ok band_ok_def)
qed simp_all

text \<open>
  The invariant does not hold of every well-formed engine: band 0 of the example
  engine is a bell with gain 0, for which \<^verbatim>\<open>designBell\<close> gives \<open>b0 = b2\<close> divided by
  the same \<open>a0\<close>, while the stored \<open>b0\<close> is \<open>1/2\<close>.
\<close>

lemma example_engine_inconsistent: "\<not> engine_invariant example_engine"
proof
  assume "engine_invariant example_engine"
  moreover have "(0::int) \<in> {0..<NUM_BANDS}" by (simp add: NUM_BANDS_def)
  ultimately have "dispatchDesign (m_bands example_engine ! nat 0)
      (m_sampleRate example_engine) (m_filters example_engine ! nat 0) =
      m_filters example_engine ! nat 0"
    by (rule engine_invariant_designed)
  then have "m_b0 (designBell example_filter 48000 1000 0.707 0) = m_b0 example_filter"
    by (simp add: example_engine_def dispatchDesign_def EQBand_ctor_def)
  then show False
    by (simp add: designBell_def Let_def setCoefficients_def example_filter_def
        divide_self_if split: if_splits)
qed

section \<open>Theorems\<close>

text \<open>
  C1. For every input sample, coefficient set and delay state, \<^verbatim>\<open>Biquad::process\<close>
  returns \<open>y = b0 * x + z1\<close> and leaves the object with \<open>z1' = b1 * x - a1 * y + z2\<close>
  and \<open>z2' = b2 * x - a2 * y\<close>, all on the values before the call, and with its five
  coefficients as they were.
\<close>

theorem Biquad_process_DF2T:
  "Biquad_process x \<lparr>m_b0 = b0, m_b1 = b1, m_b2 = b2, m_a1 = a1, m_a2 = a2,
                     m_z1 = z1, m_z2 = z2\<rparr> =
     (b0 * x + z1,
      \<lparr>m_b0 = b0, m_b1 = b1, m_b2 = b2, m_a1 = a1, m_a2 = a2,
       m_z1 = b1 * x - a1 * (b0 * x + z1) + z2,
       m_z2 = b2 * x - a2 * (b0 * x + z1)\<rparr>)"
  by (simp add: Biquad_process_def Let_def)

text \<open>
  C2. The constructed engine is well formed and consistent (every band's stored
  coefficients are the ones its design function derives from the band's type,
  frequency, Q and gain and from the sample rate), and each of \<^verbatim>\<open>initialize\<close>,
  \<^verbatim>\<open>setSampleRate\<close>, \<^verbatim>\<open>setBand\<close>, \<^verbatim>\<open>setBandFrequency\<close>, \<^verbatim>\<open>setBandQ\<close>,
  \<^verbatim>\<open>setBandGain\<close>, \<^verbatim>\<open>setBandType\<close>, \<^verbatim>\<open>setBandEnabled\<close>, \<^verbatim>\<open>setBypass\<close> and
  \<^verbatim>\<open>reset\<close> keeps an engine so, for every argument. \<^verbatim>\<open>setSampleRate\<close> called with
  the current rate returns the engine as it is.
\<close>

theorem coefficients_stay_consistent:
  "engine_invariant SpectralWeaver_ctor \<and>
   (engine_invariant sw \<longrightarrow>
      engine_invariant (initialize sampleRate sw) \<and>
      engine_invariant (setSampleRate sampleRate sw) \<and>
      setSampleRate (m_sampleRate sw) sw = sw \<and>
      engine_invariant (setBand bandIndex type frequency Q gainDB sw) \<and>
      engine_invariant (setBandFrequency bandIndex frequency sw) \<and>
      engine_invariant (setBandQ bandIndex Q sw) \<and>
      engine_invariant (setBandGain bandIndex gainDB sw) \<and>
      engine_invariant (setBandType bandIndex type sw) \<and>
      engine_invariant (setBandEnabled bandIndex enabled sw) \<and>
      engine_invariant (setBypass bypass sw) \<and>
      engine_invariant (reset sw))"
  using invariant_ctor invariant_initialize[of sw sampleRate]
    invariant_setSampleRate invariant_setBand invariant_setBandFrequency invariant_setBandQ
    invariant_setBandGain invariant_setBandType invariant_setBandEnabled invariant_setBypass
    invariant_reset
  by (simp add: engine_invariant_def setSampleRate_def)

theorem coefficients_stay_consistent_witness:
  "engine_invariant SpectralWeaver_ctor \<and>
   engine_invariant (initialize 48000 SpectralWeaver_ctor) \<and>
   engine_invariant (setSampleRate 48000 SpectralWeaver_ctor) \<and>
   setSampleRate 44100 SpectralWeaver_ctor = SpectralWeaver_ctor \<and>
   engine_invariant (setBand 3 Bell 1000 2 6 SpectralWeaver_ctor) \<and>
   engine_invariant (setBandFrequency 3 1000 SpectralWeaver_ctor) \<and>
   engine_invariant (setBandQ 3 2 SpectralWeaver_ctor) \<and>
   engine_invariant (setBandGain 3 6 SpectralWeaver_ctor) \<and>
   engine_invariant (setBandType 3 Notch SpectralWeaver_ctor) \<and>
   engine_invariant (setBandEnabled 3 True SpectralWeaver_ctor) \<and>
   engine_invariant (setBypass True SpectralWeaver_ctor) \<and>
   engine_invariant (reset SpectralWeaver_ctor)"
proof -
  have "m_sampleRate SpectralWeaver_ctor = 44100"
    by (simp add: SpectralWeaver_ctor_def initializeDefaultBands_def Let_def)
  then show ?thesis
    using coefficients_stay_consistent[of SpectralWeaver_ctor 48000 3 Bell 1000 2 6 True True]
      coefficients_stay_consistent[of SpectralWeaver_ctor 48000 3 Notch 1000 2 6 True True]
    by simp
qed

text \<open>
  C3, as stated: for every engine with bypass off and every input buffer,
  \<^verbatim>\<open>processBlock\<close> gives the output samples of \<^verbatim>\<open>processSample\<close> called on each
  input sample in order. With the output buffer one sample above the input buffer
  the copy loop of \<^verbatim>\<open>processBlock\<close> overwrites input samples before it reads them:
  on the input \<open>[1, 2, 4]\<close> the example engine leaves \<open>[4, 19/8, 2]\<close> in the output
  buffer, and \<^verbatim>\<open>processSample\<close> on the three samples gives \<open>[4, 27/8, 53/8]\<close>.
\<close>

theorem processBlock_overlap_counterexample:
  "well_formed example_engine \<and> \<not> m_bypass example_engine \<and>
   load example_memory 10 3 = [1, 2, 4] \<and>
   load (snd (processBlock 10 11 3 (example_engine, example_memory))) 11 3 =
     [4, 19 / 8, 2] \<and>
   fst (processSamples example_engine (load example_memory 10 3)) = [4, 27 / 8, 53 / 8] \<and>
   \<not> (load (snd (processBlock 10 11 3 (example_engine, example_memory))) 11 3 =
        fst (processSamples example_engine (load example_memory 10 3)))"
proof -
  have a: "well_formed example_engine"
    by (simp add: well_formed_def example_engine_def NUM_BANDS_def)
  have b: "\<not> m_bypass example_engine"
    by (simp add: example_engine_def)
  have c: "load example_memory 10 3 = [1, 2, 4]"
    by (simp add: example_memory_def load_store)
  have d: "load (snd (processBlock 10 11 3 (example_engine, example_memory))) 11 3 =
      [4, 19 / 8, 2]"
    by code_simp
  have e: "fst (processSamples example_engine [1, 2, 4]) = [4, 27 / 8, 53 / 8]"
    by code_simp
  show ?thesis
    unfolding c d e using a b by simp
qed

text \<open>
  C3, amended. For a well-formed engine with bypass off, and an output buffer that is
  the input buffer itself, or starts below it, or starts at or after its end,
  \<^verbatim>\<open>processBlock\<close> leaves the engine in the state, and the output buffer with the
  samples, that \<^verbatim>\<open>processSample\<close> called on each input sample in order gives.
\<close>

theorem processBlock_equals_processSample_sequence:
  assumes "well_formed sw" "\<not> m_bypass sw"
    "output \<le> input \<or> input + numSamples \<le> output"
  shows "fst (processBlock input output numSamples (sw, mem)) =
           snd (processSamples sw (load mem input numSamples)) \<and>
         load (snd (processBlock input output numSamples (sw, mem))) output numSamples =
           fst (processSamples sw (load mem input numSamples))"
proof -
  have "length (fst (processSamples sw (load mem input numSamples))) = nat numSamples"
    using cascade_from_length[of 0 sw "load mem input numSamples"] assms(2)
    by (cases "cascade_from 0 sw (load mem input numSamples)")
       (simp add: processSamples_cascade)
  then show ?thesis
    by (simp add: processBlock_processSamples[OF assms] load_store_nat)
qed

theorem processBlock_equals_processSample_sequence_witness:
  "well_formed example_engine \<and> \<not> m_bypass example_engine \<and>
   fst (processBlock 10 10 3 (example_engine, example_memory)) =
     snd (processSamples example_engine [1, 2, 4]) \<and>
   load (snd (processBlock 10 10 3 (example_engine, example_memory))) 10 3 =
     fst (processSamples example_engine [1, 2, 4]) \<and>
   fst (processSamples example_engine [1, 2, 4]) = [4, 27 / 8, 53 / 8] \<and>
   well_formed (setBandEnabled 3 True SpectralWeaver_ctor) \<and>
   \<not> m_bypass (setBandEnabled 3 True SpectralWeaver_ctor) \<and>
   fst (processBlock 10 20 3 (setBandEnabled 3 True SpectralWeaver_ctor, example_memory)) =
     snd (processSamples (setBandEnabled 3 True SpectralWeaver_ctor) [1, 2, 4]) \<and>
   load (snd (processBlock 10 20 3
               (setBandEnabled 3 True SpectralWeaver_ctor, example_memory))) 20 3 =
     fst (processSamples (setBandEnabled 3 True SpectralWeaver_ctor) [1, 2, 4])"
proof -
  have a: "well_formed example_engine"
    by (simp add: well_formed_def example_engine_def NUM_BANDS_def)
  have b: "\<not> m_bypass example_engine"
    by (simp add: example_engine_def)
  have c: "load example_memory 10 3 = [1, 2, 4]"
    by (simp add: example_memory_def load_store)
  have d: "fst (processSamples example_engine [1, 2, 4]) = [4, 27 / 8, 53 / 8]"
    by code_simp
  have a': "well_formed (setBandEnabled 3 True SpectralWeaver_ctor)"
    using invariant_setBandEnabled[OF invariant_ctor, of 3 True]
    by (simp add: engine_invariant_def)
  have b': "\<not> m_bypass (setBandEnabled 3 True SpectralWeaver_ctor)"
    using ctor_not_bypassed by (simp add: setBandEnabled_def)
  show ?thesis
    using processBlock_equals_processSample_sequence[OF a b, of 10 10 3 example_memory]
      processBlock_equals_processSample_sequence[OF a' b', of 20 10 3 example_memory]
      a b c d a' b'
    by simp
qed

text \<open>
  C4, as stated: with the bypass flag set, \<^verbatim>\<open>processBlock\<close> copies the input
  samples to the output verbatim for every input. With the output buffer one sample
  above the input buffer the copy loop overwrites input samples before it reads
  them: the input \<open>[1, 2, 4]\<close> leaves \<open>[1, 1, 1]\<close> in the output buffer.
\<close>

theorem bypass_overlap_counterexample:
  "m_bypass (setBypass True example_engine) \<and>
   load example_memory 10 3 = [1, 2, 4] \<and>
   load (snd (processBlock 10 11 3 (setBypass True example_engine, example_memory))) 11 3 =
     [1, 1, 1] \<and>
   \<not> (load (snd (processBlock 10 11 3
                    (setBypass True example_engine, example_memory))) 11 3 =
        load example_memory 10 3)"
proof -
  have a: "m_bypass (setBypass True example_engine)"
    by (simp add: setBypass_def)
  have c: "load example_memory 10 3 = [1, 2, 4]"
    by (simp add: example_memory_def load_store)
  have d: "load (snd (processBlock 10 11 3
                        (setBypass True example_engine, example_memory))) 11 3 = [1, 1, 1]"
    by code_simp
  show ?thesis
    unfolding c d using a by simp
qed

text \<open>
  C4, amended. With the bypass flag set, \<^verbatim>\<open>processSample\<close> returns its input, and
  \<^verbatim>\<open>processBlock\<close> leaves the output buffer with the input samples when the output
  buffer is the input buffer itself, or starts below it, or starts at or after its
  end. For every pair of buffers both calls leave the whole engine, and so every
  delay register, as it was; \<^verbatim>\<open>setBypass\<close> changes no filter, and the engine after
  bypass is cleared is the engine from before bypass with the flag off, so that
  processing resumes from the delay state of that moment.
\<close>

theorem bypass_copies_and_freezes:
  assumes "m_bypass sw"
  shows "processSample x sw = (x, sw) \<and>
         fst (processBlock input output numSamples (sw, mem)) = sw \<and>
         (output \<le> input \<or> input + numSamples \<le> output \<longrightarrow>
            load (snd (processBlock input output numSamples (sw, mem))) output numSamples =
              load mem input numSamples) \<and>
         m_filters (setBypass b sw) = m_filters sw \<and>
         setBypass False (snd (processSample x sw)) = sw\<lparr>m_bypass := False\<rparr> \<and>
         setBypass False (fst (processBlock input output numSamples (sw, mem))) =
           sw\<lparr>m_bypass := False\<rparr> \<and>
         processSample y (setBypass False (snd (processSample x sw))) =
           processSample y (setBypass False sw) \<and>
         processSample y
           (setBypass False (fst (processBlock input output numSamples (sw, mem)))) =
           processSample y (setBypass False sw)"
  using assms copy_verbatim[of "output" "input" numSamples mem]
  by (simp add: processSample_def processBlock_def setBypass_def)

theorem bypass_copies_and_freezes_witness:
  "m_bypass (setBypass True example_engine) \<and>
   processSample 5 (setBypass True example_engine) = (5, setBypass True example_engine) \<and>
   fst (processBlock 10 20 3 (setBypass True example_engine, example_memory)) =
     setBypass True example_engine \<and>
   load (snd (processBlock 10 20 3 (setBypass True example_engine, example_memory))) 20 3 =
     [1, 2, 4] \<and>
   load (snd (processBlock 10 10 3 (setBypass True example_engine, example_memory))) 10 3 =
     [1, 2, 4] \<and>
   m_filters (setBypass True example_engine) = m_filters example_engine \<and>
   setBypass False (fst (processBlock 10 20 3
                          (setBypass True example_engine, example_memory))) =
     example_engine"
proof -
  have a: "m_bypass (setBypass True example_engine)"
    by (simp add: setBypass_def)
  have c: "load example_memory 10 3 = [1, 2, 4]"
    by (simp add: example_memory_def load_store)
  have e: "(setBypass True example_engine)\<lparr>m_bypass := False\<rparr> = example_engine"
    by (simp add: setBypass_def example_engine_def)
  have f: "m_filters (setBypass True example_engine) = m_filters example_engine"
    by (simp add: setBypass_def)
  show ?thesis
    using bypass_copies_and_freezes[OF a, of 5 10 20 3 example_memory True 0]
      bypass_copies_and_freezes[OF a, of 5 10 10 3 example_memory True 0] a c e f
    by simp
qed

text \<open>
  C5. For a band index below 0 or above 6, \<^verbatim>\<open>setBand\<close>, \<^verbatim>\<open>setBandFrequency\<close>,
  \<^verbatim>\<open>setBandQ\<close>, \<^verbatim>\<open>setBandGain\<close>, \<^verbatim>\<open>setBandType\<close> and \<^verbatim>\<open>setBandEnabled\<close> return the
  engine unchanged, and \<^verbatim>\<open>getBand\<close> returns the default descriptor: Bell, 1000 Hz,
  Q 0.707, 0 dB, disabled.
\<close>

theorem out_of_range_index_is_ignored:
  assumes "bandIndex < 0 \<or> 6 < bandIndex"
  shows "setBand bandIndex type frequency Q gainDB sw = sw \<and>
         setBandFrequency bandIndex frequency sw = sw \<and>
         setBandQ bandIndex Q sw = sw \<and>
         setBandGain bandIndex gainDB sw = sw \<and>
         setBandType bandIndex type sw = sw \<and>
         setBandEnabled bandIndex enabled sw = sw \<and>
         getBand bandIndex sw =
           \<lparr>band_type = Bell, band_frequency = 1000, band_Q = 0.707, band_gainDB = 0,
            band_enabled = False\<rparr>"
  using assms
  by (auto simp: setBand_def setBandFrequency_def setBandQ_def setBandGain_def
      setBandType_def setBandEnabled_def getBand_def NUM_BANDS_def EQBand_ctor_def)

theorem out_of_range_index_is_ignored_witness:
  "setBand 7 Notch 440 2 6 example_engine = example_engine \<and>
   setBandFrequency (- 1) 440 example_engine = example_engine \<and>
   setBandQ 99 2 example_engine = example_engine \<and>
   setBandGain 7 6 example_engine = example_engine \<and>
   setBandType (- 1) Notch example_engine = example_engine \<and>
   setBandEnabled 99 True example_engine = example_engine \<and>
   getBand 7 example_engine =
     \<lparr>band_type = Bell, band_frequency = 1000, band_Q = 0.707, band_gainDB = 0,
      band_enabled = False\<rparr>"
  using out_of_range_index_is_ignored[of 7 Notch 440 2 6 example_engine True]
    out_of_range_index_is_ignored[of "- 1" Notch 440 2 6 example_engine True]
    out_of_range_index_is_ignored[of 99 Notch 440 2 6 example_engine True]
  by simp




text \<open>
  C7. When a band's type is HighPass, LowPass, AllPass or Notch, the filters that
  \<^verbatim>\<open>updateFilter\<close> leaves do not depend on the band's gain: two gains give the same
  filters, through \<^verbatim>\<open>setBandGain\<close> on a band of such a type and through
  \<^verbatim>\<open>setBand\<close> with such a type.
\<close>

theorem pass_filters_ignore_gain:
  "(band_type (m_bands sw ! nat bandIndex) \<in> {HighPass, LowPass, AllPass, Notch} \<longrightarrow>
      m_filters (updateFilter bandIndex
                   (assignBand bandIndex (\<lambda>b. b\<lparr>band_gainDB := g1\<rparr>) sw)) =
      m_filters (updateFilter bandIndex
                   (assignBand bandIndex (\<lambda>b. b\<lparr>band_gainDB := g2\<rparr>) sw)) \<and>
      m_filters (setBandGain bandIndex g1 sw) = m_filters (setBandGain bandIndex g2 sw)) \<and>
   (type \<in> {HighPass, LowPass, AllPass, Notch} \<longrightarrow>
      m_filters (setBand bandIndex type frequency Q g1 sw) =
      m_filters (setBand bandIndex type frequency Q g2 sw))"
proof -
  have *: "dispatchDesign ((m_bands sw)[nat bandIndex :=
               (m_bands sw ! nat bandIndex)\<lparr>band_gainDB := g\<rparr>] ! nat bandIndex) sr flt =
           dispatchDesign (m_bands sw ! nat bandIndex) sr flt"
    if "band_type (m_bands sw ! nat bandIndex) \<in> {HighPass, LowPass, AllPass, Notch}"
    for g sr flt
    using that
    by (cases "nat bandIndex < length (m_bands sw)")
       (simp_all add: dispatchDesign_gain list_update_beyond)
  have a: "m_filters (updateFilter bandIndex
                      (assignBand bandIndex (\<lambda>b. b\<lparr>band_gainDB := g\<rparr>) sw)) =
           m_filters (updateFilter bandIndex sw)"
    if "band_type (m_bands sw ! nat bandIndex) \<in> {HighPass, LowPass, AllPass, Notch}" for g
    by (simp add: updateFilter_dispatch assignBand_def *[OF that])
  have **: "type \<in> {HighPass, LowPass, AllPass, Notch} \<Longrightarrow>
      dispatchDesign ((m_bands sw)[nat bandIndex :=
             (m_bands sw ! nat bandIndex)\<lparr>band_type := type, band_frequency := frequency,
                band_Q := Q, band_gainDB := g\<rparr>] ! nat bandIndex) sr flt =
      dispatchDesign ((m_bands sw)[nat bandIndex :=
             (m_bands sw ! nat bandIndex)\<lparr>band_type := type, band_frequency := frequency,
                band_Q := Q\<rparr>] ! nat bandIndex) sr flt" for g sr flt
    by (cases "nat bandIndex < length (m_bands sw)")
       (auto simp: dispatchDesign_def list_update_beyond)
  have b: "type \<in> {HighPass, LowPass, AllPass, Notch} \<Longrightarrow>
      m_filters (setBand bandIndex type frequency Q g sw) =
      m_filters (setBand bandIndex type frequency Q 0 sw)" for g
    using **[of g] **[of 0]
    by (simp add: setBand_alt updateFilter_dispatch assignBand_def)
  show ?thesis
    using a[of g1] a[of g2] b[of g1] b[of g2]
    by (simp add: setBandGain_def)
qed

theorem pass_filters_ignore_gain_witness:
  "band_type (m_bands SpectralWeaver_ctor ! nat 0) = HighPass \<and>
   m_filters (setBandGain 0 6 SpectralWeaver_ctor) =
     m_filters (setBandGain 0 (- 12) SpectralWeaver_ctor) \<and>
   m_filters (setBand 2 Notch 440 2 6 SpectralWeaver_ctor) =
     m_filters (setBand 2 Notch 440 2 (- 12) SpectralWeaver_ctor)"
proof -
  have a: "band_type (m_bands SpectralWeaver_ctor ! nat 0) = HighPass"
    by (simp add: ctor_bands)
  show ?thesis
    using pass_filters_ignore_gain[of SpectralWeaver_ctor 0 6 "- 12" Notch 440 2]
      pass_filters_ignore_gain[of SpectralWeaver_ctor 2 6 "- 12" Notch 440 2] a
    by simp
qed

text \<open>
  C8. \<^verbatim>\<open>Biquad::reset\<close> sets both delay registers to zero and keeps the five
  coefficients, and a second call changes nothing. \<^verbatim>\<open>SpectralWeaver::reset\<close>
  keeps the band descriptors, the sample rate and the bypass flag, and leaves each
  of the seven filters of a well-formed engine with both delay registers zero and
  its coefficients as they were.
\<close>

theorem reset_clears_delay_only:
  "Biquad_reset \<lparr>m_b0 = b0, m_b1 = b1, m_b2 = b2, m_a1 = a1, m_a2 = a2,
                  m_z1 = z1, m_z2 = z2\<rparr> =
     \<lparr>m_b0 = b0, m_b1 = b1, m_b2 = b2, m_a1 = a1, m_a2 = a2, m_z1 = 0, m_z2 = 0\<rparr> \<and>
   Biquad_reset (Biquad_reset bq) = Biquad_reset bq \<and>
   m_bands (reset sw) = m_bands sw \<and>
   m_sampleRate (reset sw) = m_sampleRate sw \<and>
   m_bypass (reset sw) = m_bypass sw \<and>
   length (m_filters (reset sw)) = length (m_filters sw) \<and>
   (well_formed sw \<longrightarrow>
      (\<forall>i\<in>{0..<NUM_BANDS}.
         m_z1 (m_filters (reset sw) ! nat i) = 0 \<and>
         m_z2 (m_filters (reset sw) ! nat i) = 0 \<and>
         coefficients (m_filters (reset sw) ! nat i) =
           coefficients (m_filters sw ! nat i)))"
proof -
  have "nat i < length (m_filters sw)" if "well_formed sw" "i \<in> {0..<NUM_BANDS}" for i
    using that unfolding well_formed_def atLeastLessThan_iff by linarith
  then show ?thesis
    by (simp add: Biquad_reset_def reset_def coefficients_def)
qed

theorem reset_clears_delay_only_witness:
  "well_formed example_engine \<and>
   m_filters (reset example_engine) ! 0 = example_filter\<lparr>m_z1 := 0, m_z2 := 0\<rparr> \<and>
   m_z1 (m_filters (reset example_engine) ! nat 6) = 0 \<and>
   m_z2 (m_filters (reset example_engine) ! nat 6) = 0 \<and>
   coefficients (m_filters (reset example_engine) ! nat 6) = (1/2, 1/4, 1/8, - 1/2, 1/4)"
proof -
  have a: "well_formed example_engine"
    by (simp add: well_formed_def example_engine_def NUM_BANDS_def)
  have b: "(6::int) \<in> {0..<NUM_BANDS}"
    by (simp add: NUM_BANDS_def)
  have c: "coefficients (m_filters example_engine ! nat 6) = (1/2, 1/4, 1/8, - 1/2, 1/4)"
    by (simp add: example_engine_def example_filter_def coefficients_def)
  have d: "m_filters (reset example_engine) ! 0 = example_filter\<lparr>m_z1 := 0, m_z2 := 0\<rparr>"
    by (simp add: example_engine_def reset_def Biquad_reset_def)
  note t = reset_clears_delay_only[of 0 0 0 0 0 0 0 example_filter example_engine]
  from t a have "\<forall>i\<in>{0..<NUM_BANDS}.
         m_z1 (m_filters (reset example_engine) ! nat i) = 0 \<and>
         m_z2 (m_filters (reset example_engine) ! nat i) = 0 \<and>
         coefficients (m_filters (reset example_engine) ! nat i) =
           coefficients (m_filters example_engine ! nat i)"
    by blast
  from bspec[OF this b] a c d show ?thesis by simp
qed

text \<open>
  C9. \<^verbatim>\<open>Biquad::processBlock\<close> called in place on a buffer gives the final filter
  state and the output samples that it gives when called on the same samples with
  an output buffer that does not overlap the input buffer.
\<close>

theorem Biquad_processBlock_in_place:
  assumes "load mem1 p n = xs" "load mem2 inp n = xs" "0 \<le> n"
    "inp + n \<le> out \<or> out + n \<le> inp"
  shows "fst (Biquad_processBlock p p n (bq, mem1)) =
           fst (Biquad_processBlock inp out n (bq, mem2)) \<and>
         load (snd (Biquad_processBlock p p n (bq, mem1))) p n =
           load (snd (Biquad_processBlock inp out n (bq, mem2))) out n"
proof -
  have a: "out \<le> inp \<or> inp + n \<le> out" using assms(3,4) by linarith
  have len: "length xs = nat n"
    using load_length[of mem1 p n] unfolding assms(1) .
  show ?thesis
    by (simp add: Biquad_processBlock_run[OF a] Biquad_processBlock_run[of p p n] assms(1,2)
        load_store_nat len)
qed

theorem Biquad_processBlock_in_place_witness:
  "load example_memory 10 3 = [1, 2, 4] \<and>
   load (store (\<lambda>a. 0) 0 [1, 2, 4]) 0 3 = [1, 2, 4] \<and>
   fst (Biquad_processBlock 10 10 3 (example_filter, example_memory)) =
     fst (Biquad_processBlock 0 20 3 (example_filter, store (\<lambda>a. 0) 0 [1, 2, 4])) \<and>
   load (snd (Biquad_processBlock 10 10 3 (example_filter, example_memory))) 10 3 =
     load (snd (Biquad_processBlock 0 20 3
                 (example_filter, store (\<lambda>a. 0) 0 [1, 2, 4]))) 20 3 \<and>
   load (snd (Biquad_processBlock 10 10 3 (example_filter, example_memory))) 10 3 =
     [3 / 2, 1, 11 / 4]"
proof -
  have a: "load example_memory 10 3 = [1, 2, 4]"
    by (simp add: example_memory_def load_store)
  have b: "load (store (\<lambda>a. 0) 0 [1, 2, 4]) 0 3 = [1, 2, 4]"
    by (simp add: load_store)
  have c: "load (snd (Biquad_processBlock 10 10 3 (example_filter, example_memory))) 10 3 =
      [3 / 2, 1, 11 / 4]"
    by code_simp
  show ?thesis
    using Biquad_processBlock_in_place[OF a b, of 20 example_filter] a b c by simp
qed

text \<open>
  C10, as stated: with bypass off and every band disabled, \<^verbatim>\<open>processBlock\<close> copies
  the input samples to the output verbatim. With the output buffer one sample above
  the input buffer the copy loop overwrites input samples before it reads them: on
  the constructed engine the input \<open>[1, 2, 4]\<close> leaves \<open>[1, 1, 1]\<close> in the output
  buffer.
\<close>

theorem all_disabled_overlap_counterexample:
  "\<not> m_bypass SpectralWeaver_ctor \<and>
   load example_memory 10 3 = [1, 2, 4] \<and>
   load (snd (processBlock 10 11 3 (SpectralWeaver_ctor, example_memory))) 11 3 =
     [1, 1, 1] \<and>
   \<not> (load (snd (processBlock 10 11 3 (SpectralWeaver_ctor, example_memory))) 11 3 =
        load example_memory 10 3)"
proof -
  have c: "load example_memory 10 3 = [1, 2, 4]"
    by (simp add: example_memory_def load_store)
  have "processBlock 10 11 3 (SpectralWeaver_ctor, example_memory) =
      (SpectralWeaver_ctor, copy_loop 0 10 11 3 example_memory)"
    using ctor_not_bypassed
      processBlock_loop_all_disabled[of 0 SpectralWeaver_ctor 11 3, OF _ ctor_all_disabled]
    by (simp add: processBlock_def)
  moreover have "load (copy_loop 0 10 11 3 example_memory) 11 3 = [1, 1, 1]"
    by code_simp
  ultimately have d:
    "load (snd (processBlock 10 11 3 (SpectralWeaver_ctor, example_memory))) 11 3 = [1, 1, 1]"
    by simp
  show ?thesis
    unfolding c d using ctor_not_bypassed by simp
qed

text \<open>
  C10, amended. The constructed engine has bypass off and all seven bands disabled.
  For every engine with bypass off and all seven bands disabled, \<^verbatim>\<open>processSample\<close>
  returns its input and leaves the whole engine as it was, \<^verbatim>\<open>processBlock\<close> leaves
  the whole engine as it was for every pair of buffers, and it leaves the output
  buffer with the input samples when the output buffer is the input buffer itself,
  or starts below it, or starts at or after its end.
\<close>

theorem all_disabled_is_identity:
  "\<not> m_bypass SpectralWeaver_ctor \<and>
   (\<forall>i\<in>{0..<NUM_BANDS}. \<not> band_enabled (m_bands SpectralWeaver_ctor ! nat i)) \<and>
   (\<not> m_bypass sw \<and> (\<forall>i\<in>{0..<NUM_BANDS}. \<not> band_enabled (m_bands sw ! nat i)) \<longrightarrow>
      processSample x sw = (x, sw) \<and>
      fst (processBlock input output numSamples (sw, mem)) = sw \<and>
      ((output \<le> input \<or> input + numSamples \<le> output) \<longrightarrow>
         load (snd (processBlock input output numSamples (sw, mem))) output numSamples =
           load mem input numSamples))"
  using ctor_not_bypassed ctor_all_disabled
    processSample_loop_all_disabled[of 0 sw x]
    processBlock_loop_all_disabled[of 0 sw "output" numSamples]
    copy_verbatim[of "output" "input" numSamples mem]
  by (simp add: processSample_def processBlock_def)

theorem all_disabled_is_identity_witness:
  "processSample 5 SpectralWeaver_ctor = (5, SpectralWeaver_ctor) \<and>
   fst (processBlock 10 20 3 (SpectralWeaver_ctor, example_memory)) = SpectralWeaver_ctor \<and>
   load (snd (processBlock 10 20 3 (SpectralWeaver_ctor, example_memory))) 20 3 = [1, 2, 4] \<and>
   fst (processBlock 10 11 3 (SpectralWeaver_ctor, example_memory)) = SpectralWeaver_ctor"
proof -
  have c: "load example_memory 10 3 = [1, 2, 4]"
    by (simp add: example_memory_def load_store)
  show ?thesis
    using all_disabled_is_identity[of SpectralWeaver_ctor 5 10 20 3 example_memory]
      all_disabled_is_identity[of SpectralWeaver_ctor 5 10 11 3 example_memory] c
    by simp
qed

end
